theory Spec2Isabelle
  imports Complex_Main
begin

section \<open>Errors and tensor values\<close>

text \<open>
  The exceptions of the modelled code. \<open>ValueError\<close> is raised by \<open>feed_det_remove\<close>
  (and by the graph library when a fed array does not have the placeholder's shape),
  \<open>IndexError\<close> by an out-of-range subscript, \<open>FileExistsError\<close> by \<open>os.mkdir\<close>
  on an existing path and by \<open>h5py.File(..., "x")\<close> on an existing file.
  \<open>InvalidMaskError\<close> is the error the specification names; no path of the source
  constructs it.
\<close>

datatype error = ValueError | IndexError | FileExistsError | InvalidMaskError

text \<open>
  A float32 tensor entry. The special values of IEEE 754 are kept (a division by zero
  gives an infinity, zero times infinity gives NaN); arithmetic on finite values is
  exact real arithmetic, so rounding, overflow to infinity and the sign of zero are
  not modelled.
\<close>

datatype fval = Fin real | PInf | NInf | NaN

fun fsign :: "fval \<Rightarrow> int" where
  "fsign (Fin a) = (if a > 0 then 1 else if a < 0 then -1 else 0)"
| "fsign PInf = 1"
| "fsign NInf = -1"
| "fsign NaN = 0"

fun fadd :: "fval \<Rightarrow> fval \<Rightarrow> fval" where
  "fadd (Fin a) (Fin b) = Fin (a + b)"
| "fadd NaN y = NaN"
| "fadd x NaN = NaN"
| "fadd PInf NInf = NaN"
| "fadd NInf PInf = NaN"
| "fadd PInf y = PInf"
| "fadd x PInf = PInf"
| "fadd NInf y = NInf"
| "fadd x NInf = NInf"

fun fmul :: "fval \<Rightarrow> fval \<Rightarrow> fval" where
  "fmul (Fin a) (Fin b) = Fin (a * b)"
| "fmul NaN y = NaN"
| "fmul x NaN = NaN"
| "fmul x y = (if fsign x * fsign y = 0 then NaN
               else if fsign x * fsign y > 0 then PInf else NInf)"

fun fdiv :: "fval \<Rightarrow> fval \<Rightarrow> fval" where
  "fdiv (Fin a) (Fin b) =
     (if b \<noteq> 0 then Fin (a / b)
      else if a = 0 then NaN else if a > 0 then PInf else NInf)"
| "fdiv NaN y = NaN"
| "fdiv x NaN = NaN"
| "fdiv (Fin a) y = Fin 0"
| "fdiv x (Fin b) = (if fsign x * (if b < 0 then -1 else 1) > 0 then PInf else NInf)"
| "fdiv x y = NaN"

text \<open>
  \<open>tf.nn.relu\<close>: \<open>max(features, 0)\<close>. What the library's maximum returns at NaN
  depends on its build; the model lets NaN through, and no statement below depends on
  that equation.
\<close>

fun relu :: "fval \<Rightarrow> fval" where
  "relu (Fin a) = Fin (max a 0)"
| "relu PInf = PInf"
| "relu NInf = Fin 0"
| "relu NaN = NaN"

text \<open>\<open>tf.reduce_sum\<close> of a vector.\<close>

definition reduce_sum :: "fval list \<Rightarrow> fval" where
  "reduce_sum xs = foldl fadd (Fin 0) xs"

section \<open>mixedInputModel.py\<close>

definition N_DENSE :: "nat list" where
  "N_DENSE = [512, 512, 512]"

definition N_HIDDEN :: nat where
  "N_HIDDEN = length N_DENSE"

text \<open>
  The placeholders of the graph, the keys of a feed dictionary; \<open>Det_remove i\<close> is
  \<open>det_remove[i]\<close>. A fed value is a number or an array of fed values.
\<close>

datatype placeholder = X_in | Keep_prob | Y_true | Det_remove nat

datatype feed_val = Num fval | Arr "feed_val list"

type_synonym feed_dict = "placeholder \<rightharpoonup> feed_val"

definition np_ones :: "nat \<Rightarrow> feed_val" where
  "np_ones n = Arr (replicate n (Num (Fin 1)))"

text \<open>
  \<open>feed_det_remove(feed_dict, values=None)\<close>: the length test comes first and is the
  only \<open>raise\<close>; each loop runs \<open>i\<close> over \<open>range(N_HIDDEN)\<close> and stores into the
  dictionary.
\<close>

definition feed_det_remove :: "feed_dict \<Rightarrow> feed_val list option \<Rightarrow> error + feed_dict" where
  "feed_det_remove feed_dict values =
     (if values \<noteq> None \<and> length (the values) \<noteq> N_HIDDEN then Inl ValueError
      else case values of
        None \<Rightarrow>
          Inr (fold (\<lambda>i fd. fd(Det_remove i \<mapsto> np_ones (N_DENSE ! i))) [0..<N_HIDDEN] feed_dict)
      | Some vs \<Rightarrow>
          Inr (fold (\<lambda>i fd. fd(Det_remove i \<mapsto> vs ! i)) [0..<N_HIDDEN] feed_dict))"

text \<open>
  \<open>create_hidden_layer(name_sfx, prev_out, n_units, index)\<close>. The weights \<open>w\<close> (shape
  \<open>[prev_out.shape[1], n_units]\<close>, a list of rows) and the bias \<open>b\<close> (shape \<open>[n_units]\<close>)
  are the variables the function creates; the model takes their values. \<open>remove\<close> is
  the value fed for \<open>det_remove[index]\<close>, \<open>prev_out\<close> a batch of rows. The function
  returns \<open>w, b, h\<close>; the model returns \<open>h\<close>. The function itself has no \<open>raise\<close>: the
  only failure is the graph library refusing a fed vector whose length is not that of
  the placeholder, which is \<open>n_units\<close>.
\<close>

definition matmul_row :: "fval list \<Rightarrow> fval list list \<Rightarrow> nat \<Rightarrow> fval list" where
  "matmul_row x w n_units =
     map (\<lambda>i. reduce_sum (map2 (\<lambda>xj row. fmul xj (row ! i)) x w)) [0..<n_units]"

text \<open>
  The argument of the ReLU: \<open>(tf.matmul(prev_out, w) + b) * det_remove[index] * scale\<close>
  with \<open>scale = n_units / tf.reduce_sum(det_remove[index])\<close>, for one row.
\<close>

definition hidden_pre_relu ::
  "fval list list \<Rightarrow> fval list \<Rightarrow> nat \<Rightarrow> fval list \<Rightarrow> fval list \<Rightarrow> fval list" where
  "hidden_pre_relu w b n_units remove x =
     (let scale = fdiv (Fin (real n_units)) (reduce_sum remove)
      in map (\<lambda>t. fmul t scale) (map2 fmul (map2 fadd (matmul_row x w n_units) b) remove))"

definition create_hidden_layer ::
  "fval list list \<Rightarrow> fval list \<Rightarrow> fval list \<Rightarrow> fval list list \<Rightarrow> nat \<Rightarrow> error + fval list list" where
  "create_hidden_layer w b remove prev_out n_units =
     (if length remove \<noteq> n_units then Inl ValueError
      else Inr (map (\<lambda>x. map relu (hidden_pre_relu w b n_units remove x)) prev_out))"


section \<open>trainingGround.py: the rank error\<close>

definition trainingGround_BATCHSIZE :: nat where
  "trainingGround_BATCHSIZE = 50"

text \<open>
  \<open>np.unique(row, return_inverse=True)\<close>: the sorted distinct values of the row and,
  for every entry of the row, its index in that array. Rows hold finite numbers.
\<close>

definition np_unique :: "real list \<Rightarrow> real list" where
  "np_unique xs = sort (remdups xs)"

fun index_of :: "'a \<Rightarrow> 'a list \<Rightarrow> nat" where
  "index_of x [] = 0"
| "index_of x (y # ys) = (if x = y then 0 else Suc (index_of x ys))"

definition unique_inverse :: "real list \<Rightarrow> nat list" where
  "unique_inverse xs = map (\<lambda>x. index_of x (np_unique xs)) xs"

text \<open>
  \<open>np.sum(np.abs(rank_real - rank_pred))\<close> for one sample; both rows have the four
  entries of the model output.
\<close>

definition rank_diff :: "real list \<Rightarrow> real list \<Rightarrow> int" where
  "rank_diff y p =
     sum_list (map2 (\<lambda>a b. \<bar>int a - int b\<bar>) (unique_inverse y) (unique_inverse p))"

text \<open>
  The loop over \<open>range(BATCHSIZE)\<close> that accumulates \<open>sum_rank_diffs\<close> from 0.0, and
  the entry \<open>sum_rank_diffs / BATCHSIZE\<close> appended to \<open>rank_errors\<close>. A batch with
  fewer rows than \<open>BATCHSIZE\<close> makes the subscript raise.
\<close>

definition sum_rank_diffs :: "real list list \<Rightarrow> real list list \<Rightarrow> error + real" where
  "sum_rank_diffs ybatch pred =
     (if length ybatch < trainingGround_BATCHSIZE \<or> length pred < trainingGround_BATCHSIZE
      then Inl IndexError
      else Inr (fold (\<lambda>elem acc. acc + real_of_int (rank_diff (ybatch ! elem) (pred ! elem)))
                  [0..<trainingGround_BATCHSIZE] 0))"

definition rank_errors_entry :: "real list list \<Rightarrow> real list list \<Rightarrow> error + real" where
  "rank_errors_entry ybatch pred =
     (case sum_rank_diffs ybatch pred of
        Inl e \<Rightarrow> Inl e
      | Inr s \<Rightarrow> Inr (s / real trainingGround_BATCHSIZE))"

text \<open>
  The ranking of the specification, for comparison: the rank of position \<open>i\<close> counts
  the smaller entries and the equal entries at an earlier index (ties broken by stable
  ascending order of the original index).
\<close>

definition spec_ranks :: "real list \<Rightarrow> nat list" where
  "spec_ranks xs =
     map (\<lambda>i. length (filter (\<lambda>j. xs ! j < xs ! i \<or> (xs ! j = xs ! i \<and> j < i)) [0..<length xs]))
       [0..<length xs]"

definition spec_rank_diff :: "real list \<Rightarrow> real list \<Rightarrow> int" where
  "spec_rank_diff y p =
     sum_list (map2 (\<lambda>a b. \<bar>int a - int b\<bar>) (spec_ranks y) (spec_ranks p))"

section \<open>zf_retrain.py and ce_retrain.py: the retrain run\<close>

definition BATCHSIZE :: nat where
  "BATCHSIZE = 32"

definition TESTSIZE :: nat where
  "TESTSIZE = 128"

definition EVAL_TEST_EVERY :: nat where
  "EVAL_TEST_EVERY = 50"

definition fish_like :: "nat list" where
  "fish_like = [1, 2, 3, 4, 5]"

definition fish_unlike :: "nat list" where
  "fish_unlike = filter (\<lambda>elem. elem \<notin> set fish_like) [0..<8]"

definition ce_like :: "nat list" where
  "ce_like = [1, 7]"

text \<open>
  A \<open>GradientData\<close> object: the file it was loaded from and its \<open>data_size\<close>. The
  result of \<open>a.create_det_drop_list(i, clust_ids, all_ids, clusters)\<close> is kept as the
  model index and the cluster list it was built from. A training step is \<open>m.train\<close>
  (zebrafish) or the function \<open>m.get_filtered_train(filter_fun)\<close> returned
  (C. elegans), the filter given by the substring it looks for.
\<close>

record dataset =
  source_file :: string
  data_size :: nat

datatype droplist = Det_drop_list nat "nat list"

datatype train_fn = Train | Filtered_train string

text \<open>
  The calls a script makes on its collaborators (datasets, network model, analysis
  module, file system, console), in the order it makes them.
\<close>

datatype event =
    Test_batch nat
  | Predict droplist
  | Rank_error
  | Print_rank_error nat real
  | Training_batch dataset nat
  | Train_step train_fn droplist
  | Get_filtered_train string
  | Save_state string nat
  | Write_losses string "real list" "nat list"
  | Model_data string
  | Path_exists string
  | Print_skipping string
  | Mkdir string
  | Model_load string
  | Model_clear

text \<open>
  The world a script acts on: the paths that exist, as far as the scripts test or
  create them, and the calls made so far.
\<close>

record world =
  files :: "string set"
  calls :: "event list"

definition call :: "event \<Rightarrow> world \<Rightarrow> world" where
  "call e w = w\<lparr>calls := calls w @ [e]\<rparr>"

text \<open>
  A statement sequence that may raise: the world when the statement ended and the
  exception, if one was raised. \<open>then_do\<close> runs the rest only after a normal end.
\<close>

type_synonym outcome = "world \<times> error option"

definition then_do :: "outcome \<Rightarrow> (world \<Rightarrow> outcome) \<Rightarrow> outcome" where
  "then_do r f = (case r of (w, None) \<Rightarrow> f w | (w, Some e) \<Rightarrow> (w, Some e))"

text \<open>
  The local state of \<open>retrain\<close>: the step counter, the two lists of the run log, and
  the world. \<open>re k\<close> stands for the value \<open>a.rank_error\<close> returns for the evaluation
  at global step \<open>k\<close>; it depends on the weights and on the random test batch, which
  are not modelled.
\<close>

record run_state =
  global_step :: nat
  test_errors :: "real list"
  test_steps :: "nat list"
  run_world :: world

text \<open>The nested function \<open>test()\<close> of \<open>retrain\<close>.\<close>

definition test :: "(nat \<Rightarrow> real) \<Rightarrow> droplist \<Rightarrow> run_state \<Rightarrow> run_state" where
  "test re droplist s =
     s\<lparr>run_world :=
         call (Print_rank_error (global_step s) (re (global_step s)))
           (call Rank_error (call (Predict droplist) (call (Test_batch TESTSIZE) (run_world s)))),
       test_errors := test_errors s @ [re (global_step s)],
       test_steps := test_steps s @ [global_step s]\<rparr>"

text \<open>
  The body of either \<open>while\<close> loop: the evaluation when the step is a multiple of
  \<open>EVAL_TEST_EVERY\<close>, a training batch of the phase's dataset, one training step,
  and the increment of the counter.
\<close>

definition train_iteration ::
  "(nat \<Rightarrow> real) \<Rightarrow> train_fn \<Rightarrow> droplist \<Rightarrow> dataset \<Rightarrow> run_state \<Rightarrow> run_state" where
  "train_iteration re tf droplist ds s =
     (let s1 = (if global_step s mod EVAL_TEST_EVERY = 0 then test re droplist s else s);
          s2 = s1\<lparr>run_world :=
                   call (Train_step tf droplist) (call (Training_batch ds BATCHSIZE) (run_world s1))\<rparr>
      in s2\<lparr>global_step := global_step s2 + 1\<rparr>)"

function train_loop ::
  "(nat \<Rightarrow> real) \<Rightarrow> train_fn \<Rightarrow> droplist \<Rightarrow> nat \<Rightarrow> dataset \<Rightarrow> run_state \<Rightarrow> run_state" where
  "train_loop re tf droplist bound ds s =
     (if global_step s < bound
      then train_loop re tf droplist bound ds (train_iteration re tf droplist ds s)
      else s)"
  by pat_completeness auto
termination
  by (relation "measure (\<lambda>(re, tf, droplist, bound, ds, s). bound - global_step s)")
     (auto simp: train_iteration_def Let_def test_def)

declare train_loop.simps [simp del]

text \<open>
  The body the two \<open>retrain\<close> functions share, from \<open>test_errors = []\<close> on: the two
  loops over the datasets of phase 1 and phase 2, \<open>m.save_state\<close>, and the log file
  opened with mode \<open>"x"\<close>, which raises when the file exists. The print of the
  name \<open>m.save_state\<close> returns is left out.
\<close>

definition retrain_loops ::
  "(nat \<Rightarrow> real) \<Rightarrow> train_fn \<Rightarrow> droplist \<Rightarrow> dataset \<Rightarrow> dataset \<Rightarrow> world \<Rightarrow> run_state" where
  "retrain_loops re tf droplist ds1 ds2 w =
     (let epoch_1_size = data_size ds1 div BATCHSIZE;
          epoch_2_size = data_size ds2 div BATCHSIZE;
          s0 = \<lparr>global_step = 0, test_errors = [], test_steps = [], run_world = w\<rparr>;
          s1 = train_loop re tf droplist epoch_1_size ds1 s0
      in train_loop re tf droplist (epoch_1_size + epoch_2_size) ds2 s1)"

definition retrain_body ::
  "(nat \<Rightarrow> real) \<Rightarrow> train_fn \<Rightarrow> string \<Rightarrow> droplist \<Rightarrow> dataset \<Rightarrow> dataset \<Rightarrow> world \<Rightarrow> outcome" where
  "retrain_body re tf save_path droplist ds1 ds2 w =
     (let chk_file = save_path @ ''/retrain.ckpt'';
          s = retrain_loops re tf droplist ds1 ds2 w;
          w1 = call (Save_state chk_file (global_step s)) (run_world s);
          error_file = save_path @ ''/losses.hdf5''
      in if error_file \<in> files w1 then (w1, Some FileExistsError)
         else (call (Write_losses error_file (test_errors s) (test_steps s))
                 (w1\<lparr>files := insert error_file (files w1)\<rparr>), None))"

text \<open>
  \<open>zf_retrain.retrain(m, save_path, droplist)\<close>, with the module's datasets
  \<open>trainingData_1\<close> and \<open>trainingData_2\<close>.
\<close>

definition zf_retrain ::
  "(nat \<Rightarrow> real) \<Rightarrow> dataset \<Rightarrow> dataset \<Rightarrow> string \<Rightarrow> droplist \<Rightarrow> world \<Rightarrow> outcome" where
  "zf_retrain re trainingData_1 trainingData_2 save_path droplist w =
     retrain_body re Train save_path droplist trainingData_1 trainingData_2 w"

text \<open>
  \<open>ce_retrain.retrain(m, save_path, droplist, td_ix, filter_fun)\<close>, with the module's
  \<open>train_list\<close>; the subscripts raise when out of range.
\<close>

definition ce_retrain ::
  "(nat \<Rightarrow> real) \<Rightarrow> dataset list \<Rightarrow> string \<Rightarrow> droplist \<Rightarrow> nat list \<Rightarrow> string \<Rightarrow> world \<Rightarrow> outcome" where
  "ce_retrain re train_list save_path droplist td_ix filter_fun w =
     (let w0 = call (Get_filtered_train filter_fun) w
      in if length td_ix < 2 \<or> length train_list \<le> td_ix ! 0 \<or> length train_list \<le> td_ix ! 1
         then (w0, Some IndexError)
         else retrain_body re (Filtered_train filter_fun) save_path droplist
                (train_list ! (td_ix ! 0)) (train_list ! (td_ix ! 1)) w0)"

text \<open>What a list of calls shows: the training steps, the evaluations, the batches.\<close>

fun is_train_step :: "event \<Rightarrow> bool" where
  "is_train_step (Train_step tf d) = True"
| "is_train_step e = False"

definition training_steps :: "event list \<Rightarrow> nat" where
  "training_steps cs = length (filter is_train_step cs)"

fun eval_step_of :: "event \<Rightarrow> nat option" where
  "eval_step_of (Print_rank_error k r) = Some k"
| "eval_step_of e = None"

definition eval_steps :: "event list \<Rightarrow> nat list" where
  "eval_steps cs = List.map_filter eval_step_of cs"

fun batch_source_of :: "event \<Rightarrow> dataset option" where
  "batch_source_of (Training_batch ds n) = Some ds"
| "batch_source_of e = None"

definition batch_sources :: "event list \<Rightarrow> dataset list" where
  "batch_sources cs = List.map_filter batch_source_of cs"

text \<open>
  The calls of the loop iteration at global step \<open>k\<close> as the specification describes
  them (the evaluation every 50 steps first, then one training batch of 32 and one
  training step), and the calls of the two phases of a run.
\<close>

definition iteration_calls ::
  "(nat \<Rightarrow> real) \<Rightarrow> train_fn \<Rightarrow> droplist \<Rightarrow> dataset \<Rightarrow> nat \<Rightarrow> event list" where
  "iteration_calls re tf droplist ds k =
     (if k mod 50 = 0
      then [Test_batch 128, Predict droplist, Rank_error, Print_rank_error k (re k)]
      else [])
     @ [Training_batch ds 32, Train_step tf droplist]"

definition run_calls ::
  "(nat \<Rightarrow> real) \<Rightarrow> train_fn \<Rightarrow> droplist \<Rightarrow> dataset \<Rightarrow> dataset \<Rightarrow> event list" where
  "run_calls re tf droplist ds1 ds2 =
     concat (map (iteration_calls re tf droplist ds1) [0..<data_size ds1 div 32])
     @ concat (map (iteration_calls re tf droplist ds2)
         [data_size ds1 div 32..<data_size ds1 div 32 + data_size ds2 div 32])"

section \<open>zf_retrain.py and ce_retrain.py: the batch drivers\<close>

text \<open>
  The loop of either script over \<open>enumerate(paths_512)\<close>. \<open>paths_512\<close> holds the names
  of the model folders under \<open>base_path\<close>, each with a trailing slash, which \<open>mpath\<close>
  removes. What the scripts do before the loop (loading the datasets, the analysis of
  the stored models, reading the cluster file) is not modelled; \<open>re save_path k\<close> is
  the rank error of the evaluation at global step \<open>k\<close> of the run that saves to
  \<open>save_path\<close>.
\<close>

definition mpath :: "string \<Rightarrow> string \<Rightarrow> string" where
  "mpath base_path path = base_path @ butlast path"

text \<open>\<open>os.mkdir\<close> raises when the path exists.\<close>

definition os_mkdir :: "string \<Rightarrow> world \<Rightarrow> outcome" where
  "os_mkdir path w =
     (if path \<in> files w then (w, Some FileExistsError)
      else (call (Mkdir path) (w\<lparr>files := insert path (files w)\<rparr>), None))"

text \<open>
  The zebrafish loop body. The block after the comment \<open># fish unlike ablations\<close>
  (the source reuses the variable \<open>fl_folder\<close> for the second folder) is reached only
  when the fish-like block did not \<open>continue\<close>.
\<close>

definition zf_fish_unlike ::
  "(string \<Rightarrow> nat \<Rightarrow> real) \<Rightarrow> string \<Rightarrow> dataset \<Rightarrow> dataset \<Rightarrow> nat \<Rightarrow> string \<Rightarrow> world \<Rightarrow> outcome" where
  "zf_fish_unlike re base_path trainingData_1 trainingData_2 i p w =
     (let model_path = mpath base_path p;
          fl_folder = model_path @ ''/nfl_retrain'';
          w1 = call (Path_exists fl_folder) w
      in if fl_folder \<in> files w1 then (call (Print_skipping fl_folder) w1, None)
         else
           then_do (os_mkdir fl_folder w1) (\<lambda>w2.
             zf_retrain (re fl_folder) trainingData_1 trainingData_2 fl_folder
               (Det_drop_list i fish_unlike)
               (call (Model_load model_path) (call Model_clear w2))))"

definition zf_iteration ::
  "(string \<Rightarrow> nat \<Rightarrow> real) \<Rightarrow> string \<Rightarrow> dataset \<Rightarrow> dataset \<Rightarrow> nat \<Rightarrow> string \<Rightarrow> world \<Rightarrow> outcome" where
  "zf_iteration re base_path trainingData_1 trainingData_2 i p w =
     (let model_path = mpath base_path p;
          w1 = call (Model_data model_path) w;
          fl_folder = model_path @ ''/fl_retrain'';
          w2 = call (Path_exists fl_folder) w1
      in if fl_folder \<in> files w2 then (call (Print_skipping fl_folder) w2, None)
         else
           then_do (os_mkdir fl_folder w2) (\<lambda>w3.
           then_do (zf_retrain (re fl_folder) trainingData_1 trainingData_2 fl_folder
                      (Det_drop_list i fish_like) (call (Model_load model_path) w3))
             (zf_fish_unlike re base_path trainingData_1 trainingData_2 i p)))"

fun zf_loop ::
  "(string \<Rightarrow> nat \<Rightarrow> real) \<Rightarrow> string \<Rightarrow> dataset \<Rightarrow> dataset \<Rightarrow> nat \<Rightarrow> string list \<Rightarrow> world \<Rightarrow> outcome" where
  "zf_loop re base_path td1 td2 i [] w = (w, None)"
| "zf_loop re base_path td1 td2 i (p # ps) w =
     then_do (zf_iteration re base_path td1 td2 i p w) (zf_loop re base_path td1 td2 (Suc i) ps)"

definition zf_main ::
  "(string \<Rightarrow> nat \<Rightarrow> real) \<Rightarrow> string \<Rightarrow> dataset \<Rightarrow> dataset \<Rightarrow> string list \<Rightarrow> world \<Rightarrow> outcome" where
  "zf_main re base_path trainingData_1 trainingData_2 paths_512 w =
     zf_loop re base_path trainingData_1 trainingData_2 0 paths_512 w"

text \<open>
  The C. elegans loop body: the block after \<open># t-branch retrain\<close>, whose \<open>if\<close> has
  an \<open>else\<close> and no \<open>continue\<close>, and the block after \<open># m branch retrain\<close>.
  \<open>model_is_None\<close> tells whether the first block left \<open>model\<close> at \<open>None\<close>. Both
  blocks use the drop list of \<open>ce_like\<close>.
\<close>

definition ce_t_branch ::
  "(string \<Rightarrow> nat \<Rightarrow> real) \<Rightarrow> string \<Rightarrow> dataset list \<Rightarrow> nat list \<Rightarrow> nat \<Rightarrow> string \<Rightarrow> world \<Rightarrow> outcome" where
  "ce_t_branch re base_path train_list train_ix i p w =
     (let model_path = mpath base_path p;
          cel_folder = model_path @ ''/cel_tbranch_retrain'';
          dlist = Det_drop_list i ce_like;
          w1 = call (Path_exists cel_folder) w
      in if cel_folder \<in> files w1 then (call (Print_skipping cel_folder) w1, None)
         else
           then_do (os_mkdir cel_folder w1) (\<lambda>w2.
             ce_retrain (re cel_folder) train_list cel_folder dlist train_ix ''_t_''
               (call (Model_load model_path) w2)))"

definition ce_m_branch ::
  "(string \<Rightarrow> nat \<Rightarrow> real) \<Rightarrow> string \<Rightarrow> dataset list \<Rightarrow> nat list \<Rightarrow> nat \<Rightarrow> string \<Rightarrow> bool \<Rightarrow> world
   \<Rightarrow> outcome" where
  "ce_m_branch re base_path train_list train_ix i p model_is_None w =
     (let model_path = mpath base_path p;
          cel_folder = model_path @ ''/cel_nontbranch_retrain'';
          dlist = Det_drop_list i ce_like;
          w1 = call (Path_exists cel_folder) w
      in if cel_folder \<in> files w1 then (call (Print_skipping cel_folder) w1, None)
         else
           then_do (os_mkdir cel_folder w1) (\<lambda>w2.
           then_do (ce_retrain (re cel_folder) train_list cel_folder dlist train_ix ''_m_''
                      (call (Model_load model_path)
                         (if model_is_None then w2 else call Model_clear w2))) (\<lambda>w3.
             (call Model_clear w3, None))))"

definition ce_iteration ::
  "(string \<Rightarrow> nat \<Rightarrow> real) \<Rightarrow> string \<Rightarrow> dataset list \<Rightarrow> nat list \<Rightarrow> nat \<Rightarrow> string \<Rightarrow> world \<Rightarrow> outcome" where
  "ce_iteration re base_path train_list train_ix i p w =
     (let model_path = mpath base_path p;
          w1 = call (Model_data model_path) w;
          model_is_None = (model_path @ ''/cel_tbranch_retrain'' \<in> files w1)
      in then_do (ce_t_branch re base_path train_list train_ix i p w1)
           (ce_m_branch re base_path train_list train_ix i p model_is_None))"

text \<open>
  \<open>np.random.shuffle(train_ix)\<close> on the two-element list either swaps it or leaves
  it; \<open>swapped i\<close> tells which at iteration \<open>i\<close>. The list is shuffled in place, so
  the next iteration starts from the shuffled one.
\<close>

fun ce_loop ::
  "(string \<Rightarrow> nat \<Rightarrow> real) \<Rightarrow> string \<Rightarrow> dataset list \<Rightarrow> (nat \<Rightarrow> bool) \<Rightarrow> nat list \<Rightarrow> nat \<Rightarrow> string list
   \<Rightarrow> world \<Rightarrow> outcome" where
  "ce_loop re base_path train_list swapped train_ix i [] w = (w, None)"
| "ce_loop re base_path train_list swapped train_ix i (p # ps) w =
     (let train_ix1 = (if swapped i then rev train_ix else train_ix)
      in then_do (ce_iteration re base_path train_list train_ix1 i p w)
           (ce_loop re base_path train_list swapped train_ix1 (Suc i) ps))"

definition ce_main ::
  "(string \<Rightarrow> nat \<Rightarrow> real) \<Rightarrow> dataset \<Rightarrow> dataset \<Rightarrow> string \<Rightarrow> (nat \<Rightarrow> bool) \<Rightarrow> string list \<Rightarrow> world \<Rightarrow> outcome" where
  "ce_main re tD_1 tD_2 base_path swapped paths_512 w =
     ce_loop re base_path [tD_1, tD_2] swapped [0, 1] 0 paths_512 w"

section \<open>Properties of feed_det_remove\<close>

lemma N_HIDDEN_3: "N_HIDDEN = 3"
  by (simp add: N_HIDDEN_def N_DENSE_def)

lemma upt_0_3: "[0..<3] = [0, 1, 2]"
  by (simp add: upt_rec)

text \<open>
  Claim C10. For \<open>values\<close> not \<open>None\<close>, \<open>feed_det_remove\<close> raises exactly when the
  number of vectors differs from the number of hidden layers, which is 3, and what it
  raises is \<open>ValueError\<close>. When the length is 3 the three entries are stored under
  \<open>det_remove[0..2]\<close> as they are, whatever they are: no length of a vector and no
  entry is looked at.
\<close>

theorem feed_det_remove_length_check:
  "((\<exists>e. feed_det_remove fd (Some vs) = Inl e) \<longleftrightarrow> length vs \<noteq> 3)
   \<and> (feed_det_remove fd (Some vs) = Inl ValueError \<longleftrightarrow> length vs \<noteq> 3)
   \<and> (length vs = 3 \<longrightarrow>
        feed_det_remove fd (Some vs) =
          Inr (fd(Det_remove 0 \<mapsto> vs ! 0, Det_remove 1 \<mapsto> vs ! 1, Det_remove 2 \<mapsto> vs ! 2)))"
  by (simp add: feed_det_remove_def N_HIDDEN_3 upt_0_3)

theorem feed_det_remove_length_check_witness:
  "length [Arr [Num (Fin 2), Num (Fin (-1))], Arr [], Num NaN] = 3
   \<and> feed_det_remove Map.empty (Some [Arr [Num (Fin 2), Num (Fin (-1))], Arr [], Num NaN]) =
       Inr [Det_remove 0 \<mapsto> Arr [Num (Fin 2), Num (Fin (-1))],
            Det_remove 1 \<mapsto> Arr [], Det_remove 2 \<mapsto> Num NaN]
   \<and> feed_det_remove Map.empty (Some [Arr [], Arr []]) = Inl ValueError"
  using feed_det_remove_length_check
          [of Map.empty "[Arr [Num (Fin 2), Num (Fin (-1))], Arr [], Num NaN]"]
        feed_det_remove_length_check [of Map.empty "[Arr [], Arr []]"]
  by simp

section \<open>Properties of the masked hidden layer\<close>

lemma foldl_fadd_Fin: "foldl fadd (Fin a) (map Fin xs) = Fin (a + sum_list xs)"
  by (induction xs arbitrary: a) (simp_all add: add.assoc)

lemma reduce_sum_Fin: "reduce_sum (map Fin xs) = Fin (sum_list xs)"
  by (simp add: reduce_sum_def foldl_fadd_Fin)

lemma map2_Fin:
  "(\<And>a b. f (Fin a) (Fin b) = Fin (g a b)) \<Longrightarrow>
   map2 f (map Fin xs) (map Fin ys) = map Fin (map2 g xs ys)"
  by (induction xs ys rule: list_induct2') simp_all

lemma matmul_row_Fin:
  assumes "\<forall>row\<in>set W. length row = n"
  shows "matmul_row (map Fin x) (map (map Fin) W) n =
         map Fin (map (\<lambda>i. sum_list (map2 (\<lambda>xj row. xj * row ! i) x W)) [0..<n])"
proof -
  have "reduce_sum (map2 (\<lambda>xj row. fmul xj (row ! i)) (map Fin x) (map (map Fin) W))
        = Fin (sum_list (map2 (\<lambda>xj row. xj * row ! i) x W))" if "i < n" for i
  proof -
    have "map2 (\<lambda>xj row. fmul xj (row ! i)) (map Fin x) (map (map Fin) W)
          = map Fin (map2 (\<lambda>xj row. xj * row ! i) x W)"
      using assms that
      by (induction x W rule: list_induct2') simp_all
    then show ?thesis by (simp only: reduce_sum_Fin)
  qed
  then show ?thesis by (simp add: matmul_row_def)
qed










section \<open>The masked hidden layer with every unit removed\<close>

lemma zero_one_sum_0:
  assumes "\<forall>m\<in>set v. m = 0 \<or> m = (1::real)" "sum_list v = 0"
  shows "v = replicate (length v) 0"
proof -
  have "\<forall>m\<in>set v. 0 \<le> m" using assms(1) by auto
  then have "\<forall>m\<in>set v. m = 0" using assms(2) by (simp add: sum_list_nonneg_eq_0_iff)
  then show ?thesis by (simp add: replicate_length_same)
qed

lemma masked_zero:
  "length p = n \<Longrightarrow>
   map (\<lambda>t. fmul t PInf) (map2 fmul (map Fin p) (map Fin (replicate n 0))) = replicate n NaN"
proof (induction p arbitrary: n)
  case Nil
  then show ?case by simp
next
  case (Cons a p)
  then obtain m where "n = Suc m" by (cases n) auto
  with Cons show ?case by simp
qed

text \<open>
  Claim C2, as the code behaves. For a 0/1 removal vector of the layer's length
  \<open>n > 0\<close> with \<open>sum(v) = 0\<close> and finite weights, bias and input, the layer raises
  nothing: the rescale factor \<open>n / 0\<close> is \<open>+Inf\<close>, the argument of the ReLU is
  \<open>0 * Inf = NaN\<close> at every unit, and the layer returns the ReLU of that.
\<close>

theorem hidden_layer_all_removed:
  assumes "\<forall>row\<in>set W. length row = n" "length b = n" "length v = n" "0 < n"
    and "\<forall>m\<in>set v. m = 0 \<or> m = 1" "sum_list v = 0"
  shows "reduce_sum (map Fin v) = Fin 0
     \<and> fdiv (Fin (real n)) (reduce_sum (map Fin v)) = PInf
     \<and> hidden_pre_relu (map (map Fin) W) (map Fin b) n (map Fin v) (map Fin x) = replicate n NaN
     \<and> create_hidden_layer (map (map Fin) W) (map Fin b) (map Fin v) (map (map Fin) X) n
         = Inr (map (\<lambda>x. map relu (replicate n NaN)) X)"
proof -
  let ?M = "map (\<lambda>i. sum_list (map2 (\<lambda>xj row. xj * row ! i) x W)) [0..<n]"
  have v0: "v = replicate n 0"
    using zero_one_sum_0 [OF assms(5,6)] assms(3) by simp
  have s: "reduce_sum (map Fin v) = Fin 0"
    using assms(6) by (simp add: reduce_sum_Fin)
  have sc: "fdiv (Fin (real n)) (reduce_sum (map Fin v)) = PInf"
    using assms(4) by (simp add: s)
  have pre: "hidden_pre_relu (map (map Fin) W) (map Fin b) n (map Fin v) (map Fin x)
             = replicate n NaN" for x
  proof -
    let ?M = "map (\<lambda>i. sum_list (map2 (\<lambda>xj row. xj * row ! i) x W)) [0..<n]"
    have m: "matmul_row (map Fin x) (map (map Fin) W) n = map Fin ?M"
      by (rule matmul_row_Fin [OF assms(1)])
    have a: "map2 fadd (map Fin ?M) (map Fin b) = map Fin (map2 (+) ?M b)"
      by (rule map2_Fin) simp
    have l: "length (map2 (+) ?M b) = n"
      using assms(2) by simp
    show ?thesis
      unfolding hidden_pre_relu_def Let_def sc m a
      by (subst v0) (rule masked_zero [OF l])
  qed
  have "create_hidden_layer (map (map Fin) W) (map Fin b) (map Fin v) (map (map Fin) X) n
         = Inr (map (\<lambda>x. map relu (replicate n NaN)) X)"
    using assms(3) by (simp add: create_hidden_layer_def pre comp_def del: map_replicate)
  with s sc pre show ?thesis by blast
qed

theorem hidden_layer_all_removed_witness:
  "list_all (\<lambda>row. length row = 2) [[1, 2 :: real]] \<and> length [0, 1 :: real] = 2
   \<and> length [0, 0 :: real] = 2 \<and> (0::nat) < 2 \<and> list_all (\<lambda>m. m = 0 \<or> m = 1) [0, 0 :: real]
   \<and> sum_list [0, 0 :: real] = 0
   \<and> hidden_pre_relu [[Fin 1, Fin 2]] [Fin 0, Fin 1] 2 [Fin 0, Fin 0] [Fin 3] = [NaN, NaN]
   \<and> create_hidden_layer [[Fin 1, Fin 2]] [Fin 0, Fin 1] [Fin 0, Fin 0] [[Fin 3]] 2
       = Inr [[relu NaN, relu NaN]]"
  using hidden_layer_all_removed [of "[[1, 2]]" 2 "[0, 1]" "[0, 0]" "[3]" "[[3]]"]
  by (simp add: numeral_2_eq_2 del: relu.simps)

text \<open>
  With both units of a two-unit layer removed the layer does not raise
  \<open>InvalidMaskError\<close>, and the argument of its ReLU is NaN at both units.
\<close>

theorem hidden_layer_all_removed_counterexample:
  "reduce_sum [Fin 0, Fin 0] = Fin 0
   \<and> create_hidden_layer [[Fin 1, Fin 2]] [Fin 0, Fin 1] [Fin 0, Fin 0] [[Fin 3]] 2
       \<noteq> Inl InvalidMaskError
   \<and> hidden_pre_relu [[Fin 1, Fin 2]] [Fin 0, Fin 1] 2 [Fin 0, Fin 0] [Fin 3] = [NaN, NaN]"
  by (simp add: create_hidden_layer_def hidden_pre_relu_def matmul_row_def reduce_sum_def
      upt_rec numeral_2_eq_2)

section \<open>Properties of the rank error\<close>

lemma index_of_sorted:
  "sorted ys \<Longrightarrow> distinct ys \<Longrightarrow> x \<in> set ys \<Longrightarrow>
   index_of x ys = length (filter (\<lambda>z. z < x) ys)"
proof (induction ys)
  case Nil
  then show ?case by simp
next
  case (Cons y ys)
  show ?case
  proof (cases "x = y")
    case True
    have "\<forall>z\<in>set (y # ys). \<not> z < x"
      using Cons.prems True by auto
    then have "filter (\<lambda>z. z < x) (y # ys) = []"
      by (simp only: filter_False)
    then show ?thesis using True by simp
  next
    case False
    then have mem: "x \<in> set ys" using Cons.prems by simp
    moreover have "y < x" using Cons.prems False mem by (auto simp: less_le)
    ultimately show ?thesis using Cons False by simp
  qed
qed

lemma length_filter_card:
  "distinct xs \<Longrightarrow> length (filter P xs) = card {z \<in> set xs. P z}"
  using distinct_card [of "filter P xs"] by simp

lemma unique_inverse_nth:
  assumes "i < length xs"
  shows "unique_inverse xs ! i = card {z \<in> set xs. z < xs ! i}"
proof -
  let ?u = "np_unique xs"
  have d: "distinct ?u" and s: "sorted ?u" and m: "set ?u = set xs"
    by (simp_all add: np_unique_def)
  have "unique_inverse xs ! i = index_of (xs ! i) ?u"
    using assms by (simp add: unique_inverse_def)
  also have "\<dots> = length (filter (\<lambda>z. z < xs ! i) ?u)"
    using index_of_sorted [OF s d] assms m by simp
  also have "\<dots> = card {z \<in> set ?u. z < xs ! i}"
    by (rule length_filter_card [OF d])
  finally show ?thesis by (simp only: m)
qed

lemma spec_ranks_distinct:
  assumes "distinct xs"
  shows "spec_ranks xs = unique_inverse xs"
proof (rule nth_equalityI)
  show "length (spec_ranks xs) = length (unique_inverse xs)"
    by (simp add: spec_ranks_def unique_inverse_def)
next
  fix i assume "i < length (spec_ranks xs)"
  then have i: "i < length xs" by (simp add: spec_ranks_def)
  let ?x = "xs ! i"
  have eq: "filter (\<lambda>j. xs ! j < ?x \<or> (xs ! j = ?x \<and> j < i)) [0..<length xs]
          = filter (\<lambda>j. xs ! j < ?x) [0..<length xs]"
    using assms i by (intro filter_cong) (auto simp: nth_eq_iff_index_eq)
  have "length (filter (\<lambda>j. xs ! j < ?x) [0..<length xs])
        = length (filter (\<lambda>z. z < ?x) (map (\<lambda>j. xs ! j) [0..<length xs]))"
    by (simp add: filter_map comp_def)
  also have "\<dots> = length (filter (\<lambda>z. z < ?x) xs)"
    by (simp add: map_nth)
  also have "\<dots> = card {z \<in> set xs. z < ?x}"
    by (rule length_filter_card [OF assms])
  finally have "spec_ranks xs ! i = card {z \<in> set xs. z < ?x}"
    using i eq by (simp add: spec_ranks_def)
  then show "spec_ranks xs ! i = unique_inverse xs ! i"
    using unique_inverse_nth [OF i] by simp
qed

lemma rank_diff_nth:
  assumes "length y = length p"
  shows "rank_diff y p =
    (\<Sum>i = 0..<length y. \<bar>int (card {z \<in> set y. z < y ! i}) - int (card {z \<in> set p. z < p ! i})\<bar>)"
proof -
  have "rank_diff y p =
    (\<Sum>i = 0..<length y. \<bar>int (unique_inverse y ! i) - int (unique_inverse p ! i)\<bar>)"
    using assms by (simp add: rank_diff_def sum_list_sum_nth unique_inverse_def)
  also have "\<dots> =
    (\<Sum>i = 0..<length y. \<bar>int (card {z \<in> set y. z < y ! i}) - int (card {z \<in> set p. z < p ! i})\<bar>)"
    using assms by (intro sum.cong) (simp_all add: unique_inverse_nth)
  finally show ?thesis .
qed

lemma rank_diff_same: "rank_diff y y = 0"
  by (simp add: rank_diff_def zip_same_conv_map comp_def)

lemma rank_diff_reversed: "rank_diff [1, 2, 3, 4] [4, 3, 2, 1] = 8"
  by (simp add: rank_diff_def unique_inverse_def np_unique_def)

lemma fold_add_sum_list:
  "fold (\<lambda>elem acc. acc + g elem) xs (a::real) = a + sum_list (map g xs)"
  by (induction xs arbitrary: a) simp_all

lemma rank_errors_entry_mean:
  assumes "length ybatch = trainingGround_BATCHSIZE" "length pred = trainingGround_BATCHSIZE"
  shows "rank_errors_entry ybatch pred =
    Inr ((\<Sum>elem = 0..<50. real_of_int (rank_diff (ybatch ! elem) (pred ! elem))) / 50)"
  using assms
  by (simp add: rank_errors_entry_def sum_rank_diffs_def fold_add_sum_list
      interv_sum_list_conv_sum_set_nat trainingGround_BATCHSIZE_def)

text \<open>
  Claim C9, as the code computes it. The rank error of one sample is the sum over the
  positions of the absolute differences of the ranks of the target value and of the
  predicted value, where the rank of a value is the number of distinct smaller values
  of its row, so that equal values share a rank. The entry of a batch of 50 samples is
  the mean of the per-sample errors. For target [1,2,3,4] and prediction [4,3,2,1] the
  per-sample error is 8, for identical rows it is 0, and on rows without ties the
  ranks are those of the specification.
\<close>

theorem rank_error_dense_ranks:
  "(length y = length p \<longrightarrow>
      rank_diff y p =
        (\<Sum>i = 0..<length y.
           \<bar>int (card {z \<in> set y. z < y ! i}) - int (card {z \<in> set p. z < p ! i})\<bar>))
   \<and> (distinct y \<and> distinct p \<longrightarrow> rank_diff y p = spec_rank_diff y p)
   \<and> rank_diff [1, 2, 3, 4] [4, 3, 2, 1] = 8
   \<and> rank_diff y y = 0
   \<and> (length ybatch = 50 \<and> length pred = 50 \<longrightarrow>
        rank_errors_entry ybatch pred =
          Inr ((\<Sum>elem = 0..<50. real_of_int (rank_diff (ybatch ! elem) (pred ! elem))) / 50))"
proof (intro conjI impI)
  show "rank_diff y p =
        (\<Sum>i = 0..<length y.
           \<bar>int (card {z \<in> set y. z < y ! i}) - int (card {z \<in> set p. z < p ! i})\<bar>)"
    if "length y = length p"
    using that by (rule rank_diff_nth)
  show "rank_diff y p = spec_rank_diff y p" if "distinct y \<and> distinct p"
    using that by (simp add: rank_diff_def spec_rank_diff_def spec_ranks_distinct)
  show "rank_diff [1, 2, 3, 4] [4, 3, 2, 1] = 8"
    by (rule rank_diff_reversed)
  show "rank_diff y y = 0"
    by (rule rank_diff_same)
  show "rank_errors_entry ybatch pred =
          Inr ((\<Sum>elem = 0..<50. real_of_int (rank_diff (ybatch ! elem) (pred ! elem))) / 50)"
    if "length ybatch = 50 \<and> length pred = 50"
    using that by (intro rank_errors_entry_mean) (simp_all add: trainingGround_BATCHSIZE_def)
qed

theorem rank_error_dense_ranks_witness:
  "length [1, 1, 2, 3 :: real] = length [1, 2, 3, 4 :: real]
   \<and> distinct [1, 2, 3, 4 :: real] \<and> distinct [4, 3, 2, 1 :: real]
   \<and> length (replicate 50 [1, 1, 2, 3 :: real]) = 50
   \<and> length (replicate 50 [1, 2, 3, 4 :: real]) = 50
   \<and> rank_diff [1, 1, 2, 3] [1, 2, 3, 4] = 3
   \<and> spec_rank_diff [1, 2, 3, 4] [4, 3, 2, 1] = 8
   \<and> rank_errors_entry (replicate 50 [1, 1, 2, 3]) (replicate 50 [1, 2, 3, 4]) = Inr 3"
proof -
  have a: "rank_diff [1, 1, 2, 3] [1, 2, 3, 4] = 3"
    by (simp add: rank_diff_def unique_inverse_def np_unique_def)
  have b: "spec_rank_diff [1, 2, 3, 4] [4, 3, 2, 1] = 8"
    using rank_error_dense_ranks [of "[1, 2, 3, 4]" "[4, 3, 2, 1]" "[]" "[]"] by simp
  have c: "rank_errors_entry (replicate 50 [1, 1, 2, 3]) (replicate 50 [1, 2, 3, 4]) = Inr 3"
    using rank_error_dense_ranks
            [of "[]" "[]" "replicate 50 [1, 1, 2, 3]" "replicate 50 [1, 2, 3, 4]"] a
    by simp
  show ?thesis using a b c by simp
qed

text \<open>
  The ranking of the specification differs on a row with a tie: for target [1,1,2,3]
  and prediction [1,2,3,4] the code ranks the target 0,0,1,2 and reports 3, where
  ranks with ties broken by index are 0,1,2,3 and would give 0.
\<close>

theorem rank_error_ties_counterexample:
  "rank_diff [1, 1, 2, 3] [1, 2, 3, 4] = 3 \<and> spec_rank_diff [1, 1, 2, 3] [1, 2, 3, 4] = 0
   \<and> unique_inverse [1, 1, 2, 3] = [0, 0, 1, 2] \<and> spec_ranks [1, 1, 2, 3] = [0, 1, 2, 3]"
  by (simp add: rank_diff_def spec_rank_diff_def unique_inverse_def np_unique_def
      spec_ranks_def upt_rec)

section \<open>Properties of the retrain run\<close>

lemma train_iteration_step [simp]:
  "global_step (train_iteration re tf d ds s) = Suc (global_step s)"
  by (simp add: train_iteration_def Let_def test_def)

lemma train_iteration_files [simp]:
  "files (run_world (train_iteration re tf d ds s)) = files (run_world s)"
  by (simp add: train_iteration_def Let_def test_def call_def)

lemma train_iteration_calls:
  "calls (run_world (train_iteration re tf d ds s)) =
   calls (run_world s) @ iteration_calls re tf d ds (global_step s)"
  by (simp add: train_iteration_def Let_def test_def call_def iteration_calls_def
      EVAL_TEST_EVERY_def TESTSIZE_def BATCHSIZE_def)

lemma train_iteration_test_steps:
  "test_steps (train_iteration re tf d ds s) =
   test_steps s @ filter (\<lambda>k. k mod 50 = 0) [global_step s]"
  by (simp add: train_iteration_def Let_def test_def EVAL_TEST_EVERY_def)

lemma train_iteration_test_errors:
  "test_errors (train_iteration re tf d ds s) =
   test_errors s @ map re (filter (\<lambda>k. k mod 50 = 0) [global_step s])"
  by (simp add: train_iteration_def Let_def test_def EVAL_TEST_EVERY_def)

lemma train_loop_done:
  "\<not> global_step s < bound \<Longrightarrow> train_loop re tf d bound ds s = s"
  by (simp add: train_loop.simps)

lemma train_loop_unfold:
  "global_step s < bound \<Longrightarrow>
   train_loop re tf d bound ds s = train_loop re tf d bound ds (train_iteration re tf d ds s)"
  by (subst train_loop.simps) simp

lemma train_loop_step:
  "global_step (train_loop re tf d bound ds s) = max (global_step s) bound"
proof (induction re tf d bound ds s rule: train_loop.induct)
  case (1 re tf d bound ds s)
  show ?case
  proof (cases "global_step s < bound")
    case True
    then show ?thesis using 1 by (simp add: train_loop_unfold)
  next
    case False
    then show ?thesis by (simp add: train_loop_done)
  qed
qed

lemma train_loop_files:
  "files (run_world (train_loop re tf d bound ds s)) = files (run_world s)"
proof (induction re tf d bound ds s rule: train_loop.induct)
  case (1 re tf d bound ds s)
  show ?case
  proof (cases "global_step s < bound")
    case True
    then show ?thesis using 1 by (simp add: train_loop_unfold)
  next
    case False
    then show ?thesis by (simp add: train_loop_done)
  qed
qed

lemma train_loop_calls:
  "calls (run_world (train_loop re tf d bound ds s)) =
   calls (run_world s) @ concat (map (iteration_calls re tf d ds) [global_step s..<bound])"
proof (induction re tf d bound ds s rule: train_loop.induct)
  case (1 re tf d bound ds s)
  show ?case
  proof (cases "global_step s < bound")
    case True
    then show ?thesis
      using 1 by (simp add: train_loop_unfold train_iteration_calls upt_conv_Cons)
  next
    case False
    then show ?thesis by (simp add: train_loop_done)
  qed
qed

lemma train_loop_test_steps:
  "test_steps (train_loop re tf d bound ds s) =
   test_steps s @ filter (\<lambda>k. k mod 50 = 0) [global_step s..<bound]"
proof (induction re tf d bound ds s rule: train_loop.induct)
  case (1 re tf d bound ds s)
  show ?case
  proof (cases "global_step s < bound")
    case True
    then show ?thesis
      using 1 by (simp add: train_loop_unfold train_iteration_test_steps upt_conv_Cons)
  next
    case False
    then show ?thesis by (simp add: train_loop_done)
  qed
qed

lemma train_loop_test_errors:
  "test_errors (train_loop re tf d bound ds s) =
   test_errors s @ map re (filter (\<lambda>k. k mod 50 = 0) [global_step s..<bound])"
proof (induction re tf d bound ds s rule: train_loop.induct)
  case (1 re tf d bound ds s)
  show ?case
  proof (cases "global_step s < bound")
    case True
    then show ?thesis
      using 1 by (simp add: train_loop_unfold train_iteration_test_errors upt_conv_Cons)
  next
    case False
    then show ?thesis by (simp add: train_loop_done)
  qed
qed

lemma retrain_loops_step:
  "global_step (retrain_loops re tf d ds1 ds2 w) = data_size ds1 div 32 + data_size ds2 div 32"
  by (simp add: retrain_loops_def Let_def train_loop_step BATCHSIZE_def)

lemma retrain_loops_files:
  "files (run_world (retrain_loops re tf d ds1 ds2 w)) = files w"
  by (simp add: retrain_loops_def Let_def train_loop_files)

lemma retrain_loops_calls:
  "calls (run_world (retrain_loops re tf d ds1 ds2 w)) = calls w @ run_calls re tf d ds1 ds2"
  by (simp add: retrain_loops_def Let_def train_loop_calls train_loop_step BATCHSIZE_def
      run_calls_def)

lemma retrain_loops_test_steps:
  "test_steps (retrain_loops re tf d ds1 ds2 w) =
   filter (\<lambda>k. k mod 50 = 0) [0..<data_size ds1 div 32 + data_size ds2 div 32]"
  by (simp add: retrain_loops_def Let_def train_loop_test_steps train_loop_step BATCHSIZE_def
      upt_add_eq_append [of 0, simplified])

lemma retrain_loops_test_errors:
  "test_errors (retrain_loops re tf d ds1 ds2 w) =
   map re (filter (\<lambda>k. k mod 50 = 0) [0..<data_size ds1 div 32 + data_size ds2 div 32])"
  by (simp add: retrain_loops_def Let_def train_loop_test_errors train_loop_step BATCHSIZE_def
      upt_add_eq_append [of 0, simplified])

lemma retrain_body_calls:
  "calls (fst (retrain_body re tf save d ds1 ds2 w)) =
   calls w @ run_calls re tf d ds1 ds2
   @ [Save_state (save @ ''/retrain.ckpt'') (data_size ds1 div 32 + data_size ds2 div 32)]
   @ (if save @ ''/losses.hdf5'' \<in> files w then []
      else [Write_losses (save @ ''/losses.hdf5'')
              (map re (filter (\<lambda>k. k mod 50 = 0) [0..<data_size ds1 div 32 + data_size ds2 div 32]))
              (filter (\<lambda>k. k mod 50 = 0) [0..<data_size ds1 div 32 + data_size ds2 div 32])])"
  by (simp add: retrain_body_def Let_def call_def retrain_loops_calls retrain_loops_files
      retrain_loops_step retrain_loops_test_steps retrain_loops_test_errors)

lemma retrain_body_result:
  "snd (retrain_body re tf save d ds1 ds2 w) =
     (if save @ ''/losses.hdf5'' \<in> files w then Some FileExistsError else None)"
  by (simp add: retrain_body_def Let_def call_def retrain_loops_files)

lemma retrain_body_files:
  "files (fst (retrain_body re tf save d ds1 ds2 w)) = insert (save @ ''/losses.hdf5'') (files w)"
  by (auto simp add: retrain_body_def Let_def call_def retrain_loops_files)

lemma training_steps_append [simp]:
  "training_steps (xs @ ys) = training_steps xs + training_steps ys"
  by (simp add: training_steps_def)

lemma training_steps_iterations:
  "training_steps (concat (map (iteration_calls re tf d ds) [a..<b])) = b - a"
proof (induction b)
  case 0
  then show ?case by (simp add: training_steps_def)
next
  case (Suc b)
  show ?case
  proof (cases "a \<le> b")
    case True
    then show ?thesis
      using Suc by (simp add: iteration_calls_def) (simp add: training_steps_def)
  next
    case False
    then show ?thesis by (simp add: training_steps_def)
  qed
qed

lemma training_steps_run_calls:
  "training_steps (run_calls re tf d ds1 ds2) = data_size ds1 div 32 + data_size ds2 div 32"
  by (simp add: run_calls_def training_steps_iterations)

lemma eval_steps_append [simp]: "eval_steps (xs @ ys) = eval_steps xs @ eval_steps ys"
  by (simp add: eval_steps_def map_filter_def)

lemma batch_sources_append [simp]:
  "batch_sources (xs @ ys) = batch_sources xs @ batch_sources ys"
  by (simp add: batch_sources_def map_filter_def)

lemma eval_steps_iteration:
  "eval_steps (iteration_calls re tf d ds k) = filter (\<lambda>k. k mod 50 = 0) [k]"
  by (simp add: iteration_calls_def eval_steps_def map_filter_def)

lemma batch_sources_iteration: "batch_sources (iteration_calls re tf d ds k) = [ds]"
  by (simp add: iteration_calls_def batch_sources_def map_filter_def)

lemma eval_steps_iterations:
  "eval_steps (concat (map (iteration_calls re tf d ds) [a..<b])) =
   filter (\<lambda>k. k mod 50 = 0) [a..<b]"
proof (induction b)
  case 0
  then show ?case by (simp add: eval_steps_def map_filter_def)
next
  case (Suc b)
  show ?case
  proof (cases "a \<le> b")
    case True
    then show ?thesis using Suc by (simp add: eval_steps_iteration)
  next
    case False
    then show ?thesis by (simp add: eval_steps_def map_filter_def)
  qed
qed

lemma batch_sources_iterations:
  "batch_sources (concat (map (iteration_calls re tf d ds) [a..<b])) = replicate (b - a) ds"
proof (induction b)
  case 0
  then show ?case by (simp add: batch_sources_def map_filter_def)
next
  case (Suc b)
  show ?case
  proof (cases "a \<le> b")
    case True
    then show ?thesis
      using Suc by (simp add: batch_sources_iteration Suc_diff_le replicate_append_same)
  next
    case False
    then show ?thesis by (simp add: batch_sources_def map_filter_def)
  qed
qed

lemma eval_steps_run_calls:
  "eval_steps (run_calls re tf d ds1 ds2) =
   filter (\<lambda>k. k mod 50 = 0) [0..<data_size ds1 div 32 + data_size ds2 div 32]"
  by (simp add: run_calls_def eval_steps_iterations upt_add_eq_append [of 0, simplified])

lemma batch_sources_run_calls:
  "batch_sources (run_calls re tf d ds1 ds2) =
   replicate (data_size ds1 div 32) ds1 @ replicate (data_size ds2 div 32) ds2"
  by (simp add: run_calls_def batch_sources_iterations)

lemma run_calls_single_range:
  "run_calls re tf d ds1 ds2 =
   concat (map (\<lambda>k. iteration_calls re tf d (if k < data_size ds1 div 32 then ds1 else ds2) k)
     [0..<data_size ds1 div 32 + data_size ds2 div 32])"
proof -
  let ?e1 = "data_size ds1 div 32" and ?e2 = "data_size ds2 div 32"
  have a: "map (\<lambda>k. iteration_calls re tf d (if k < ?e1 then ds1 else ds2) k) [0..<?e1]
           = map (iteration_calls re tf d ds1) [0..<?e1]"
    by (rule map_cong) simp_all
  have b: "map (\<lambda>k. iteration_calls re tf d (if k < ?e1 then ds1 else ds2) k) [?e1..<?e1 + ?e2]
           = map (iteration_calls re tf d ds2) [?e1..<?e1 + ?e2]"
    by (rule map_cong) simp_all
  show ?thesis
    unfolding run_calls_def upt_add_eq_append [of 0 ?e1 ?e2, simplified] map_append concat_append a b
    by (rule refl)
qed

lemma observers_Cons [simp]:
  "training_steps [] = 0"
  "training_steps (Save_state f k # cs) = training_steps cs"
  "training_steps (Write_losses g es ss # cs) = training_steps cs"
  "training_steps (Get_filtered_train t # cs) = training_steps cs"
  "eval_steps [] = []"
  "eval_steps (Save_state f k # cs) = eval_steps cs"
  "eval_steps (Write_losses g es ss # cs) = eval_steps cs"
  "eval_steps (Get_filtered_train t # cs) = eval_steps cs"
  "batch_sources [] = []"
  "batch_sources (Save_state f k # cs) = batch_sources cs"
  "batch_sources (Write_losses g es ss # cs) = batch_sources cs"
  "batch_sources (Get_filtered_train t # cs) = batch_sources cs"
  by (simp_all add: training_steps_def eval_steps_def batch_sources_def map_filter_def)

lemma training_steps_retrain_body:
  "training_steps (calls (fst (retrain_body re tf save d ds1 ds2 w))) =
   training_steps (calls w) + (data_size ds1 div 32 + data_size ds2 div 32)"
  by (simp add: retrain_body_calls training_steps_run_calls)

lemma eval_steps_retrain_body:
  "eval_steps (calls (fst (retrain_body re tf save d ds1 ds2 w))) =
   eval_steps (calls w)
   @ filter (\<lambda>k. k mod 50 = 0) [0..<data_size ds1 div 32 + data_size ds2 div 32]"
  by (simp add: retrain_body_calls eval_steps_run_calls)

lemma batch_sources_retrain_body:
  "batch_sources (calls (fst (retrain_body re tf save d ds1 ds2 w))) =
   batch_sources (calls w)
   @ replicate (data_size ds1 div 32) ds1 @ replicate (data_size ds2 div 32) ds2"
  by (simp add: retrain_body_calls batch_sources_run_calls)

lemma ce_retrain_ok:
  assumes "2 \<le> length td_ix" "td_ix ! 0 < length train_list" "td_ix ! 1 < length train_list"
  shows "ce_retrain re train_list save d td_ix ff w =
         retrain_body re (Filtered_train ff) save d (train_list ! (td_ix ! 0))
           (train_list ! (td_ix ! 1)) (call (Get_filtered_train ff) w)"
  using assms by (simp add: ce_retrain_def Let_def)

text \<open>
  Claim C3. A retrain run makes exactly \<open>floor(s1/32) + floor(s2/32)\<close> training steps,
  where \<open>s1\<close> and \<open>s2\<close> are the sizes of the datasets of phase 1 and phase 2 (one epoch
  each, batch size 32), in the zebrafish script and in the C. elegans script; for the
  sizes 320 and 160 these are 10 + 5 = 15 training steps.
\<close>

theorem retrain_training_steps:
  "training_steps (calls (fst (zf_retrain re td1 td2 save d w))) =
     training_steps (calls w) + (data_size td1 div 32 + data_size td2 div 32)
   \<and> training_steps (calls (fst (zf_retrain re \<lparr>source_file = f1, data_size = 320\<rparr>
        \<lparr>source_file = f2, data_size = 160\<rparr> save d w))) = training_steps (calls w) + 15
   \<and> (2 \<le> length td_ix \<and> td_ix ! 0 < length train_list \<and> td_ix ! 1 < length train_list \<longrightarrow>
       training_steps (calls (fst (ce_retrain re train_list save d td_ix ff w))) =
         training_steps (calls w)
         + (data_size (train_list ! (td_ix ! 0)) div 32 + data_size (train_list ! (td_ix ! 1)) div 32))
   \<and> training_steps (calls (fst (ce_retrain re
        [\<lparr>source_file = f1, data_size = 320\<rparr>, \<lparr>source_file = f2, data_size = 160\<rparr>]
        save d [0, 1] ff w))) = training_steps (calls w) + 15"
  by (simp add: zf_retrain_def training_steps_retrain_body ce_retrain_ok call_def)

theorem retrain_training_steps_witness:
  "training_steps (calls (fst (zf_retrain (\<lambda>k. 0) \<lparr>source_file = ''a'', data_size = 320\<rparr>
      \<lparr>source_file = ''b'', data_size = 160\<rparr> ''out'' (Det_drop_list 0 [1])
      \<lparr>files = {}, calls = []\<rparr>))) = 15
   \<and> 2 \<le> length [1, 0 :: nat]
   \<and> [1, 0 :: nat] ! 0 < length [\<lparr>source_file = ''a'', data_size = 100\<rparr>,
                                    \<lparr>source_file = ''b'', data_size = 64\<rparr>]
   \<and> [1, 0 :: nat] ! 1 < length [\<lparr>source_file = ''a'', data_size = 100\<rparr>,
                                    \<lparr>source_file = ''b'', data_size = 64\<rparr>]
   \<and> training_steps (calls (fst (ce_retrain (\<lambda>k. 0)
        [\<lparr>source_file = ''a'', data_size = 100\<rparr>, \<lparr>source_file = ''b'', data_size = 64\<rparr>]
        ''out'' (Det_drop_list 0 [1]) [1, 0] ''_t_'' \<lparr>files = {}, calls = []\<rparr>))) = 5"
  using retrain_training_steps
    [of "\<lambda>k. 0" "\<lparr>source_file = ''a'', data_size = 320\<rparr>"
        "\<lparr>source_file = ''b'', data_size = 160\<rparr>" "''out''" "Det_drop_list 0 [1]"
        "\<lparr>files = {}, calls = []\<rparr>" "''a''" "''b''" "[1, 0]"
        "[\<lparr>source_file = ''a'', data_size = 100\<rparr>, \<lparr>source_file = ''b'', data_size = 64\<rparr>]"
        "''_t_''"]
  by simp

lemma retrain_body_calls_single_range:
  "calls (fst (retrain_body re tf save d ds1 ds2 w)) =
     calls w
     @ concat (map (\<lambda>k. (if k mod 50 = 0
                          then [Test_batch 128, Predict d, Rank_error, Print_rank_error k (re k)]
                          else [])
                         @ [Training_batch (if k < data_size ds1 div 32 then ds1 else ds2) 32,
                            Train_step tf d])
         [0..<data_size ds1 div 32 + data_size ds2 div 32])
     @ [Save_state (save @ ''/retrain.ckpt'') (data_size ds1 div 32 + data_size ds2 div 32)]
     @ (if save @ ''/losses.hdf5'' \<in> files w then []
        else [Write_losses (save @ ''/losses.hdf5'')
                (map re (filter (\<lambda>k. k mod 50 = 0)
                   [0..<data_size ds1 div 32 + data_size ds2 div 32]))
                (filter (\<lambda>k. k mod 50 = 0) [0..<data_size ds1 div 32 + data_size ds2 div 32])])"
  unfolding retrain_body_calls run_calls_single_range iteration_calls_def by (rule refl)

text \<open>
  Claim C4. The calls of a retrain run are those of the global steps 0, 1, ... below
  the total step count, in this order. At a step that is a multiple of 50 the run first
  evaluates (a test batch of 128, the prediction under the removal mask, the rank
  error, the report of step and error) and then draws a training batch of 32 and makes
  one training step (masked, and filtered in the C. elegans script); at every other
  step it only draws the batch and trains. The steps and errors of the evaluations are
  the two lists written to the log file after the checkpoint.
\<close>

theorem retrain_evaluation_then_training:
  "calls (fst (zf_retrain re td1 td2 save d w)) =
     calls w
     @ concat (map (\<lambda>k. (if k mod 50 = 0
                          then [Test_batch 128, Predict d, Rank_error, Print_rank_error k (re k)]
                          else [])
                         @ [Training_batch (if k < data_size td1 div 32 then td1 else td2) 32,
                            Train_step Train d])
         [0..<data_size td1 div 32 + data_size td2 div 32])
     @ [Save_state (save @ ''/retrain.ckpt'') (data_size td1 div 32 + data_size td2 div 32)]
     @ (if save @ ''/losses.hdf5'' \<in> files w then []
        else [Write_losses (save @ ''/losses.hdf5'')
                (map re (filter (\<lambda>k. k mod 50 = 0)
                   [0..<data_size td1 div 32 + data_size td2 div 32]))
                (filter (\<lambda>k. k mod 50 = 0) [0..<data_size td1 div 32 + data_size td2 div 32])])
   \<and> (2 \<le> length td_ix \<and> td_ix ! 0 < length train_list \<and> td_ix ! 1 < length train_list \<longrightarrow>
       calls (fst (ce_retrain re train_list save d td_ix ff w)) =
         calls w @ [Get_filtered_train ff]
         @ concat (map (\<lambda>k. (if k mod 50 = 0
                          then [Test_batch 128, Predict d, Rank_error, Print_rank_error k (re k)]
                          else [])
                         @ [Training_batch
                              (if k < data_size (train_list ! (td_ix ! 0)) div 32
                               then train_list ! (td_ix ! 0) else train_list ! (td_ix ! 1)) 32,
                            Train_step (Filtered_train ff) d])
             [0..<data_size (train_list ! (td_ix ! 0)) div 32
                  + data_size (train_list ! (td_ix ! 1)) div 32])
         @ [Save_state (save @ ''/retrain.ckpt'')
              (data_size (train_list ! (td_ix ! 0)) div 32
               + data_size (train_list ! (td_ix ! 1)) div 32)]
         @ (if save @ ''/losses.hdf5'' \<in> files w then []
            else [Write_losses (save @ ''/losses.hdf5'')
                    (map re (filter (\<lambda>k. k mod 50 = 0)
                       [0..<data_size (train_list ! (td_ix ! 0)) div 32
                            + data_size (train_list ! (td_ix ! 1)) div 32]))
                    (filter (\<lambda>k. k mod 50 = 0)
                       [0..<data_size (train_list ! (td_ix ! 0)) div 32
                            + data_size (train_list ! (td_ix ! 1)) div 32])]))"
proof (intro conjI impI)
  show "calls (fst (zf_retrain re td1 td2 save d w)) =
     calls w
     @ concat (map (\<lambda>k. (if k mod 50 = 0
                          then [Test_batch 128, Predict d, Rank_error, Print_rank_error k (re k)]
                          else [])
                         @ [Training_batch (if k < data_size td1 div 32 then td1 else td2) 32,
                            Train_step Train d])
         [0..<data_size td1 div 32 + data_size td2 div 32])
     @ [Save_state (save @ ''/retrain.ckpt'') (data_size td1 div 32 + data_size td2 div 32)]
     @ (if save @ ''/losses.hdf5'' \<in> files w then []
        else [Write_losses (save @ ''/losses.hdf5'')
                (map re (filter (\<lambda>k. k mod 50 = 0)
                   [0..<data_size td1 div 32 + data_size td2 div 32]))
                (filter (\<lambda>k. k mod 50 = 0) [0..<data_size td1 div 32 + data_size td2 div 32])])"
    unfolding zf_retrain_def by (rule retrain_body_calls_single_range)
next
  assume "2 \<le> length td_ix \<and> td_ix ! 0 < length train_list \<and> td_ix ! 1 < length train_list"
  then have ok: "ce_retrain re train_list save d td_ix ff w =
         retrain_body re (Filtered_train ff) save d (train_list ! (td_ix ! 0))
           (train_list ! (td_ix ! 1)) (call (Get_filtered_train ff) w)"
    by (intro ce_retrain_ok) simp_all
  show "calls (fst (ce_retrain re train_list save d td_ix ff w)) =
         calls w @ [Get_filtered_train ff]
         @ concat (map (\<lambda>k. (if k mod 50 = 0
                          then [Test_batch 128, Predict d, Rank_error, Print_rank_error k (re k)]
                          else [])
                         @ [Training_batch
                              (if k < data_size (train_list ! (td_ix ! 0)) div 32
                               then train_list ! (td_ix ! 0) else train_list ! (td_ix ! 1)) 32,
                            Train_step (Filtered_train ff) d])
             [0..<data_size (train_list ! (td_ix ! 0)) div 32
                  + data_size (train_list ! (td_ix ! 1)) div 32])
         @ [Save_state (save @ ''/retrain.ckpt'')
              (data_size (train_list ! (td_ix ! 0)) div 32
               + data_size (train_list ! (td_ix ! 1)) div 32)]
         @ (if save @ ''/losses.hdf5'' \<in> files w then []
            else [Write_losses (save @ ''/losses.hdf5'')
                    (map re (filter (\<lambda>k. k mod 50 = 0)
                       [0..<data_size (train_list ! (td_ix ! 0)) div 32
                            + data_size (train_list ! (td_ix ! 1)) div 32]))
                    (filter (\<lambda>k. k mod 50 = 0)
                       [0..<data_size (train_list ! (td_ix ! 0)) div 32
                            + data_size (train_list ! (td_ix ! 1)) div 32])])"
    unfolding ok retrain_body_calls_single_range by (simp add: call_def)
qed

theorem retrain_evaluation_then_training_witness:
  "calls (fst (zf_retrain (\<lambda>k. 7) \<lparr>source_file = ''a'', data_size = 32\<rparr>
      \<lparr>source_file = ''b'', data_size = 40\<rparr> ''out'' (Det_drop_list 0 [1])
      \<lparr>files = {}, calls = []\<rparr>)) =
   [Test_batch 128, Predict (Det_drop_list 0 [1]), Rank_error, Print_rank_error 0 7,
    Training_batch \<lparr>source_file = ''a'', data_size = 32\<rparr> 32, Train_step Train (Det_drop_list 0 [1]),
    Training_batch \<lparr>source_file = ''b'', data_size = 40\<rparr> 32, Train_step Train (Det_drop_list 0 [1]),
    Save_state ''out/retrain.ckpt'' 2, Write_losses ''out/losses.hdf5'' [7] [0]]
   \<and> 2 \<le> length [1, 0 :: nat]
   \<and> [1, 0 :: nat] ! 0 < length [\<lparr>source_file = ''a'', data_size = 32\<rparr>,
                                    \<lparr>source_file = ''b'', data_size = 40\<rparr>]
   \<and> [1, 0 :: nat] ! 1 < length [\<lparr>source_file = ''a'', data_size = 32\<rparr>,
                                    \<lparr>source_file = ''b'', data_size = 40\<rparr>]
   \<and> calls (fst (ce_retrain (\<lambda>k. 7)
        [\<lparr>source_file = ''a'', data_size = 32\<rparr>, \<lparr>source_file = ''b'', data_size = 40\<rparr>]
        ''out'' (Det_drop_list 0 [1]) [1, 0] ''_t_'' \<lparr>files = {}, calls = []\<rparr>)) =
   [Get_filtered_train ''_t_'',
    Test_batch 128, Predict (Det_drop_list 0 [1]), Rank_error, Print_rank_error 0 7,
    Training_batch \<lparr>source_file = ''b'', data_size = 40\<rparr> 32,
    Train_step (Filtered_train ''_t_'') (Det_drop_list 0 [1]),
    Training_batch \<lparr>source_file = ''a'', data_size = 32\<rparr> 32,
    Train_step (Filtered_train ''_t_'') (Det_drop_list 0 [1]),
    Save_state ''out/retrain.ckpt'' 2, Write_losses ''out/losses.hdf5'' [7] [0]]"
proof -
  have u: "[0..<2] = [0, 1]" by (simp add: upt_rec)
  have zf: "calls (fst (zf_retrain (\<lambda>k. 7) \<lparr>source_file = ''a'', data_size = 32\<rparr>
      \<lparr>source_file = ''b'', data_size = 40\<rparr> ''out'' (Det_drop_list 0 [1])
      \<lparr>files = {}, calls = []\<rparr>)) =
   [Test_batch 128, Predict (Det_drop_list 0 [1]), Rank_error, Print_rank_error 0 7,
    Training_batch \<lparr>source_file = ''a'', data_size = 32\<rparr> 32, Train_step Train (Det_drop_list 0 [1]),
    Training_batch \<lparr>source_file = ''b'', data_size = 40\<rparr> 32, Train_step Train (Det_drop_list 0 [1]),
    Save_state ''out/retrain.ckpt'' 2, Write_losses ''out/losses.hdf5'' [7] [0]]"
    using retrain_evaluation_then_training
      [of "\<lambda>k. 7" "\<lparr>source_file = ''a'', data_size = 32\<rparr>" "\<lparr>source_file = ''b'', data_size = 40\<rparr>"
          "''out''" "Det_drop_list 0 [1]" "\<lparr>files = {}, calls = []\<rparr>" "[]" "[]" "''''"]
    by (simp add: u)
  have ce: "2 \<le> length [1, 0 :: nat]
   \<and> [1, 0 :: nat] ! 0 < length [\<lparr>source_file = ''a'', data_size = 32\<rparr>,
                                    \<lparr>source_file = ''b'', data_size = 40\<rparr>]
   \<and> [1, 0 :: nat] ! 1 < length [\<lparr>source_file = ''a'', data_size = 32\<rparr>,
                                    \<lparr>source_file = ''b'', data_size = 40\<rparr>]
   \<and> calls (fst (ce_retrain (\<lambda>k. 7)
        [\<lparr>source_file = ''a'', data_size = 32\<rparr>, \<lparr>source_file = ''b'', data_size = 40\<rparr>]
        ''out'' (Det_drop_list 0 [1]) [1, 0] ''_t_'' \<lparr>files = {}, calls = []\<rparr>)) =
   [Get_filtered_train ''_t_'',
    Test_batch 128, Predict (Det_drop_list 0 [1]), Rank_error, Print_rank_error 0 7,
    Training_batch \<lparr>source_file = ''b'', data_size = 40\<rparr> 32,
    Train_step (Filtered_train ''_t_'') (Det_drop_list 0 [1]),
    Training_batch \<lparr>source_file = ''a'', data_size = 32\<rparr> 32,
    Train_step (Filtered_train ''_t_'') (Det_drop_list 0 [1]),
    Save_state ''out/retrain.ckpt'' 2, Write_losses ''out/losses.hdf5'' [7] [0]]"
    using retrain_evaluation_then_training
      [of "\<lambda>k. 7" "\<lparr>source_file = ''a'', data_size = 32\<rparr>" "\<lparr>source_file = ''b'', data_size = 40\<rparr>"
          "''out''" "Det_drop_list 0 [1]" "\<lparr>files = {}, calls = []\<rparr>" "[1, 0]"
          "[\<lparr>source_file = ''a'', data_size = 32\<rparr>, \<lparr>source_file = ''b'', data_size = 40\<rparr>]"
          "''_t_''"]
    by (simp add: u)
  show ?thesis using zf ce by (simp only: simp_thms)
qed

lemma multiples_of_50_below_15: "filter (\<lambda>k. k mod 50 = 0) [0..<15] = [0::nat]"
  by (simp add: upt_rec)

lemma eval_steps_zf_retrain:
  "eval_steps (calls (fst (zf_retrain re td1 td2 save d w))) =
   eval_steps (calls w)
   @ filter (\<lambda>k. k mod 50 = 0) [0..<data_size td1 div 32 + data_size td2 div 32]"
  by (simp add: zf_retrain_def eval_steps_retrain_body)

lemma eval_steps_ce_retrain:
  assumes "2 \<le> length td_ix" "td_ix ! 0 < length train_list" "td_ix ! 1 < length train_list"
  shows "eval_steps (calls (fst (ce_retrain re train_list save d td_ix ff w))) =
   eval_steps (calls w)
   @ filter (\<lambda>k. k mod 50 = 0)
       [0..<data_size (train_list ! (td_ix ! 0)) div 32 + data_size (train_list ! (td_ix ! 1)) div 32]"
  by (simp add: ce_retrain_ok [OF assms] eval_steps_retrain_body call_def)

text \<open>
  Claim C5, as the code behaves. A retrain run over datasets of the sizes 320 and 160
  (15 training steps) evaluates exactly once, at global step 0, so not at step 50; and
  in every run each evaluation is at a multiple of 50 below the total step count, so
  none comes after the last training step.
\<close>

theorem retrain_15_steps_evaluations:
  "eval_steps (calls (fst (zf_retrain re \<lparr>source_file = f1, data_size = 320\<rparr>
      \<lparr>source_file = f2, data_size = 160\<rparr> save d w))) = eval_steps (calls w) @ [0]
   \<and> eval_steps (calls (fst (ce_retrain re
        [\<lparr>source_file = f1, data_size = 320\<rparr>, \<lparr>source_file = f2, data_size = 160\<rparr>]
        save d [0, 1] ff w))) = eval_steps (calls w) @ [0]
   \<and> (\<forall>k \<in> set (eval_steps (calls (fst (zf_retrain re td1 td2 save d \<lparr>files = F, calls = []\<rparr>)))).
         k mod 50 = 0 \<and> k < data_size td1 div 32 + data_size td2 div 32)
   \<and> (2 \<le> length td_ix \<and> td_ix ! 0 < length train_list \<and> td_ix ! 1 < length train_list \<longrightarrow>
       (\<forall>k \<in> set (eval_steps (calls (fst (ce_retrain re train_list save d td_ix ff
                      \<lparr>files = F, calls = []\<rparr>)))).
          k mod 50 = 0
          \<and> k < data_size (train_list ! (td_ix ! 0)) div 32
                 + data_size (train_list ! (td_ix ! 1)) div 32))"
  by (simp add: eval_steps_zf_retrain eval_steps_ce_retrain multiples_of_50_below_15)

theorem retrain_15_steps_evaluations_witness:
  "eval_steps (calls (fst (zf_retrain (\<lambda>k. 0) \<lparr>source_file = ''a'', data_size = 320\<rparr>
      \<lparr>source_file = ''b'', data_size = 160\<rparr> ''out'' (Det_drop_list 0 [1])
      \<lparr>files = {}, calls = []\<rparr>))) = [0]
   \<and> 2 \<le> length [1, 0 :: nat]
   \<and> [1, 0 :: nat] ! 0 < length [\<lparr>source_file = ''a'', data_size = 320\<rparr>,
                                    \<lparr>source_file = ''b'', data_size = 160\<rparr>]
   \<and> [1, 0 :: nat] ! 1 < length [\<lparr>source_file = ''a'', data_size = 320\<rparr>,
                                    \<lparr>source_file = ''b'', data_size = 160\<rparr>]
   \<and> list_all (\<lambda>k. k mod 50 = 0 \<and> k < 15)
        (eval_steps (calls (fst (ce_retrain (\<lambda>k. 0)
           [\<lparr>source_file = ''a'', data_size = 320\<rparr>, \<lparr>source_file = ''b'', data_size = 160\<rparr>]
           ''out'' (Det_drop_list 0 [1]) [1, 0] ''_t_'' \<lparr>files = {}, calls = []\<rparr>))))"
  using retrain_15_steps_evaluations
    [of "\<lambda>k. 0" "''a''" "''b''" "''out''" "Det_drop_list 0 [1]" "\<lparr>files = {}, calls = []\<rparr>"
        "''_t_''" "\<lparr>source_file = ''a'', data_size = 320\<rparr>" "\<lparr>source_file = ''b'', data_size = 160\<rparr>"
        "{}" "[1, 0]" "[\<lparr>source_file = ''a'', data_size = 320\<rparr>, \<lparr>source_file = ''b'', data_size = 160\<rparr>]"]
  by (simp add: list_all_iff)

text \<open>
  The run of 15 training steps does evaluate at global step 0: step 0 is a multiple of
  50 and the loop tests the counter before the first training batch.
\<close>

theorem retrain_15_steps_evaluations_counterexample:
  "0 \<in> set (eval_steps (calls (fst (zf_retrain (\<lambda>k. 0) \<lparr>source_file = ''a'', data_size = 320\<rparr>
      \<lparr>source_file = ''b'', data_size = 160\<rparr> ''out'' (Det_drop_list 0 [1])
      \<lparr>files = {}, calls = []\<rparr>))))
   \<and> training_steps (calls (fst (zf_retrain (\<lambda>k. 0) \<lparr>source_file = ''a'', data_size = 320\<rparr>
      \<lparr>source_file = ''b'', data_size = 160\<rparr> ''out'' (Det_drop_list 0 [1])
      \<lparr>files = {}, calls = []\<rparr>))) = 15"
  by (simp add: zf_retrain_def eval_steps_retrain_body multiples_of_50_below_15
      training_steps_retrain_body)

text \<open>
  Claim C6. A retrain run first makes the iterations of the global steps
  \<open>0 .. epoch_1_size - 1\<close>, every training batch drawn from the dataset of phase 1,
  then those of the steps \<open>epoch_1_size .. epoch_1_size + epoch_2_size - 1\<close>, every
  batch drawn from the dataset of phase 2 (the counter goes on, so the evaluations are
  at the multiples of 50 of the shared counter), and then saves the checkpoint at
  global step \<open>epoch_1_size + epoch_2_size\<close>. In the C. elegans script the datasets of
  phase 1 and phase 2 are \<open>train_list[td_ix[0]]\<close> and \<open>train_list[td_ix[1]]\<close>.
\<close>

theorem retrain_phases:
  "calls (fst (zf_retrain re td1 td2 save d w)) =
     calls w
     @ concat (map (iteration_calls re Train d td1) [0..<data_size td1 div 32])
     @ concat (map (iteration_calls re Train d td2)
         [data_size td1 div 32..<data_size td1 div 32 + data_size td2 div 32])
     @ [Save_state (save @ ''/retrain.ckpt'') (data_size td1 div 32 + data_size td2 div 32)]
     @ (if save @ ''/losses.hdf5'' \<in> files w then []
        else [Write_losses (save @ ''/losses.hdf5'')
                (map re (filter (\<lambda>k. k mod 50 = 0)
                   [0..<data_size td1 div 32 + data_size td2 div 32]))
                (filter (\<lambda>k. k mod 50 = 0) [0..<data_size td1 div 32 + data_size td2 div 32])])
   \<and> batch_sources (calls (fst (zf_retrain re td1 td2 save d w))) =
       batch_sources (calls w)
       @ replicate (data_size td1 div 32) td1 @ replicate (data_size td2 div 32) td2
   \<and> eval_steps (calls (fst (zf_retrain re td1 td2 save d w))) =
       eval_steps (calls w)
       @ filter (\<lambda>k. k mod 50 = 0) [0..<data_size td1 div 32 + data_size td2 div 32]
   \<and> (2 \<le> length td_ix \<and> td_ix ! 0 < length train_list \<and> td_ix ! 1 < length train_list \<longrightarrow>
       calls (fst (ce_retrain re train_list save d td_ix ff w)) =
         calls w @ [Get_filtered_train ff]
         @ concat (map (iteration_calls re (Filtered_train ff) d (train_list ! (td_ix ! 0)))
             [0..<data_size (train_list ! (td_ix ! 0)) div 32])
         @ concat (map (iteration_calls re (Filtered_train ff) d (train_list ! (td_ix ! 1)))
             [data_size (train_list ! (td_ix ! 0)) div 32
              ..<data_size (train_list ! (td_ix ! 0)) div 32
                 + data_size (train_list ! (td_ix ! 1)) div 32])
         @ [Save_state (save @ ''/retrain.ckpt'')
              (data_size (train_list ! (td_ix ! 0)) div 32
               + data_size (train_list ! (td_ix ! 1)) div 32)]
         @ (if save @ ''/losses.hdf5'' \<in> files w then []
            else [Write_losses (save @ ''/losses.hdf5'')
                    (map re (filter (\<lambda>k. k mod 50 = 0)
                       [0..<data_size (train_list ! (td_ix ! 0)) div 32
                            + data_size (train_list ! (td_ix ! 1)) div 32]))
                    (filter (\<lambda>k. k mod 50 = 0)
                       [0..<data_size (train_list ! (td_ix ! 0)) div 32
                            + data_size (train_list ! (td_ix ! 1)) div 32])])
       \<and> batch_sources (calls (fst (ce_retrain re train_list save d td_ix ff w))) =
           batch_sources (calls w)
           @ replicate (data_size (train_list ! (td_ix ! 0)) div 32) (train_list ! (td_ix ! 0))
           @ replicate (data_size (train_list ! (td_ix ! 1)) div 32) (train_list ! (td_ix ! 1))
       \<and> eval_steps (calls (fst (ce_retrain re train_list save d td_ix ff w))) =
           eval_steps (calls w)
           @ filter (\<lambda>k. k mod 50 = 0)
               [0..<data_size (train_list ! (td_ix ! 0)) div 32
                    + data_size (train_list ! (td_ix ! 1)) div 32])"
proof -
  have zf: "calls (fst (zf_retrain re td1 td2 save d w)) =
     calls w
     @ concat (map (iteration_calls re Train d td1) [0..<data_size td1 div 32])
     @ concat (map (iteration_calls re Train d td2)
         [data_size td1 div 32..<data_size td1 div 32 + data_size td2 div 32])
     @ [Save_state (save @ ''/retrain.ckpt'') (data_size td1 div 32 + data_size td2 div 32)]
     @ (if save @ ''/losses.hdf5'' \<in> files w then []
        else [Write_losses (save @ ''/losses.hdf5'')
                (map re (filter (\<lambda>k. k mod 50 = 0)
                   [0..<data_size td1 div 32 + data_size td2 div 32]))
                (filter (\<lambda>k. k mod 50 = 0) [0..<data_size td1 div 32 + data_size td2 div 32])])"
    unfolding zf_retrain_def retrain_body_calls run_calls_def by simp
  have zb: "batch_sources (calls (fst (zf_retrain re td1 td2 save d w))) =
       batch_sources (calls w)
       @ replicate (data_size td1 div 32) td1 @ replicate (data_size td2 div 32) td2"
    by (simp add: zf_retrain_def batch_sources_retrain_body)
  have ce: "calls (fst (ce_retrain re train_list save d td_ix ff w)) =
         calls w @ [Get_filtered_train ff]
         @ concat (map (iteration_calls re (Filtered_train ff) d (train_list ! (td_ix ! 0)))
             [0..<data_size (train_list ! (td_ix ! 0)) div 32])
         @ concat (map (iteration_calls re (Filtered_train ff) d (train_list ! (td_ix ! 1)))
             [data_size (train_list ! (td_ix ! 0)) div 32
              ..<data_size (train_list ! (td_ix ! 0)) div 32
                 + data_size (train_list ! (td_ix ! 1)) div 32])
         @ [Save_state (save @ ''/retrain.ckpt'')
              (data_size (train_list ! (td_ix ! 0)) div 32
               + data_size (train_list ! (td_ix ! 1)) div 32)]
         @ (if save @ ''/losses.hdf5'' \<in> files w then []
            else [Write_losses (save @ ''/losses.hdf5'')
                    (map re (filter (\<lambda>k. k mod 50 = 0)
                       [0..<data_size (train_list ! (td_ix ! 0)) div 32
                            + data_size (train_list ! (td_ix ! 1)) div 32]))
                    (filter (\<lambda>k. k mod 50 = 0)
                       [0..<data_size (train_list ! (td_ix ! 0)) div 32
                            + data_size (train_list ! (td_ix ! 1)) div 32])])"
    and cb: "batch_sources (calls (fst (ce_retrain re train_list save d td_ix ff w))) =
           batch_sources (calls w)
           @ replicate (data_size (train_list ! (td_ix ! 0)) div 32) (train_list ! (td_ix ! 0))
           @ replicate (data_size (train_list ! (td_ix ! 1)) div 32) (train_list ! (td_ix ! 1))"
    if h: "2 \<le> length td_ix \<and> td_ix ! 0 < length train_list \<and> td_ix ! 1 < length train_list"
  proof -
    have ok: "ce_retrain re train_list save d td_ix ff w =
         retrain_body re (Filtered_train ff) save d (train_list ! (td_ix ! 0))
           (train_list ! (td_ix ! 1)) (call (Get_filtered_train ff) w)"
      using h by (intro ce_retrain_ok) simp_all
    show "calls (fst (ce_retrain re train_list save d td_ix ff w)) =
         calls w @ [Get_filtered_train ff]
         @ concat (map (iteration_calls re (Filtered_train ff) d (train_list ! (td_ix ! 0)))
             [0..<data_size (train_list ! (td_ix ! 0)) div 32])
         @ concat (map (iteration_calls re (Filtered_train ff) d (train_list ! (td_ix ! 1)))
             [data_size (train_list ! (td_ix ! 0)) div 32
              ..<data_size (train_list ! (td_ix ! 0)) div 32
                 + data_size (train_list ! (td_ix ! 1)) div 32])
         @ [Save_state (save @ ''/retrain.ckpt'')
              (data_size (train_list ! (td_ix ! 0)) div 32
               + data_size (train_list ! (td_ix ! 1)) div 32)]
         @ (if save @ ''/losses.hdf5'' \<in> files w then []
            else [Write_losses (save @ ''/losses.hdf5'')
                    (map re (filter (\<lambda>k. k mod 50 = 0)
                       [0..<data_size (train_list ! (td_ix ! 0)) div 32
                            + data_size (train_list ! (td_ix ! 1)) div 32]))
                    (filter (\<lambda>k. k mod 50 = 0)
                       [0..<data_size (train_list ! (td_ix ! 0)) div 32
                            + data_size (train_list ! (td_ix ! 1)) div 32])])"
      unfolding ok retrain_body_calls run_calls_def by (simp add: call_def)
    show "batch_sources (calls (fst (ce_retrain re train_list save d td_ix ff w))) =
           batch_sources (calls w)
           @ replicate (data_size (train_list ! (td_ix ! 0)) div 32) (train_list ! (td_ix ! 0))
           @ replicate (data_size (train_list ! (td_ix ! 1)) div 32) (train_list ! (td_ix ! 1))"
      unfolding ok by (simp add: batch_sources_retrain_body call_def)
  qed
  show ?thesis
    using zf zb ce cb eval_steps_zf_retrain [of re td1 td2 save d w]
      eval_steps_ce_retrain [of td_ix train_list re save d ff w]
    by blast
qed

lemma multiples_of_50_below_120: "filter (\<lambda>k. k mod 50 = 0) [0..<120] = [0, 50, 100::nat]"
  by (simp add: upt_rec)

theorem retrain_phases_witness:
  "batch_sources (calls (fst (zf_retrain (\<lambda>k. 0) \<lparr>source_file = ''a'', data_size = 1920\<rparr>
      \<lparr>source_file = ''b'', data_size = 1920\<rparr> ''out'' (Det_drop_list 0 [1])
      \<lparr>files = {}, calls = []\<rparr>))) =
     replicate 60 \<lparr>source_file = ''a'', data_size = 1920\<rparr>
     @ replicate 60 \<lparr>source_file = ''b'', data_size = 1920\<rparr>
   \<and> eval_steps (calls (fst (zf_retrain (\<lambda>k. 0) \<lparr>source_file = ''a'', data_size = 1920\<rparr>
      \<lparr>source_file = ''b'', data_size = 1920\<rparr> ''out'' (Det_drop_list 0 [1])
      \<lparr>files = {}, calls = []\<rparr>))) = [0, 50, 100]
   \<and> 2 \<le> length [1, 0 :: nat]
   \<and> [1, 0 :: nat] ! 0 < length [\<lparr>source_file = ''a'', data_size = 64\<rparr>,
                                    \<lparr>source_file = ''b'', data_size = 32\<rparr>]
   \<and> [1, 0 :: nat] ! 1 < length [\<lparr>source_file = ''a'', data_size = 64\<rparr>,
                                    \<lparr>source_file = ''b'', data_size = 32\<rparr>]
   \<and> batch_sources (calls (fst (ce_retrain (\<lambda>k. 0)
        [\<lparr>source_file = ''a'', data_size = 64\<rparr>, \<lparr>source_file = ''b'', data_size = 32\<rparr>]
        ''out'' (Det_drop_list 0 [1]) [1, 0] ''_t_'' \<lparr>files = {}, calls = []\<rparr>))) =
     [\<lparr>source_file = ''b'', data_size = 32\<rparr>, \<lparr>source_file = ''a'', data_size = 64\<rparr>,
      \<lparr>source_file = ''a'', data_size = 64\<rparr>]"
proof -
  note zf = retrain_phases
      [of "\<lambda>k. 0" "\<lparr>source_file = ''a'', data_size = 1920\<rparr>"
        "\<lparr>source_file = ''b'', data_size = 1920\<rparr>" "''out''" "Det_drop_list 0 [1]"
        "\<lparr>files = {}, calls = []\<rparr>" "[]" "[]" "[]"]
  note ce = retrain_phases
      [of "\<lambda>k. 0" "\<lparr>source_file = ''a'', data_size = 64\<rparr>"
        "\<lparr>source_file = ''b'', data_size = 32\<rparr>" "''out''" "Det_drop_list 0 [1]"
        "\<lparr>files = {}, calls = []\<rparr>" "[1, 0]"
        "[\<lparr>source_file = ''a'', data_size = 64\<rparr>, \<lparr>source_file = ''b'', data_size = 32\<rparr>]"
        "''_t_''"]
  have a: "batch_sources (calls (fst (zf_retrain (\<lambda>k. 0) \<lparr>source_file = ''a'', data_size = 1920\<rparr>
      \<lparr>source_file = ''b'', data_size = 1920\<rparr> ''out'' (Det_drop_list 0 [1])
      \<lparr>files = {}, calls = []\<rparr>))) =
     replicate 60 \<lparr>source_file = ''a'', data_size = 1920\<rparr>
     @ replicate 60 \<lparr>source_file = ''b'', data_size = 1920\<rparr>"
    using zf [THEN conjunct2, THEN conjunct1] by simp
  have b: "eval_steps (calls (fst (zf_retrain (\<lambda>k. 0) \<lparr>source_file = ''a'', data_size = 1920\<rparr>
      \<lparr>source_file = ''b'', data_size = 1920\<rparr> ''out'' (Det_drop_list 0 [1])
      \<lparr>files = {}, calls = []\<rparr>))) = [0, 50, 100]"
    using zf [THEN conjunct2, THEN conjunct2, THEN conjunct1]
    by (simp add: multiples_of_50_below_120)
  have c: "batch_sources (calls (fst (ce_retrain (\<lambda>k. 0)
        [\<lparr>source_file = ''a'', data_size = 64\<rparr>, \<lparr>source_file = ''b'', data_size = 32\<rparr>]
        ''out'' (Det_drop_list 0 [1]) [1, 0] ''_t_'' \<lparr>files = {}, calls = []\<rparr>))) =
     [\<lparr>source_file = ''b'', data_size = 32\<rparr>, \<lparr>source_file = ''a'', data_size = 64\<rparr>,
      \<lparr>source_file = ''a'', data_size = 64\<rparr>]"
  proof -
    have h: "2 \<le> length [1, 0 :: nat]
      \<and> [1, 0 :: nat] ! 0 < length [\<lparr>source_file = ''a'', data_size = 64\<rparr>,
                                       \<lparr>source_file = ''b'', data_size = 32\<rparr>]
      \<and> [1, 0 :: nat] ! 1 < length [\<lparr>source_file = ''a'', data_size = 64\<rparr>,
                                       \<lparr>source_file = ''b'', data_size = 32\<rparr>]"
      by simp
    show ?thesis
      using ce [THEN conjunct2, THEN conjunct2, THEN conjunct2, THEN mp, OF h,
                THEN conjunct2, THEN conjunct1]
      by (simp add: numeral_2_eq_2)
  qed
  show ?thesis using a b c by simp
qed

section \<open>Properties of the batch drivers\<close>

lemma then_do_None [simp]: "then_do (w, None) f = f w"
  by (simp add: then_do_def)

lemma then_do_Some [simp]: "then_do (w, Some e) f = (w, Some e)"
  by (simp add: then_do_def)

lemma call_files [simp]: "files (call e w) = files w"
  by (simp add: call_def)

lemma call_calls [simp]: "calls (call e w) = calls w @ [e]"
  by (simp add: call_def)

lemma os_mkdir_ok:
  "path \<notin> files w \<Longrightarrow>
   os_mkdir path w = (call (Mkdir path) (w\<lparr>files := insert path (files w)\<rparr>), None)"
  by (simp add: os_mkdir_def)

lemma zf_retrain_files:
  "files (fst (zf_retrain re td1 td2 save d w)) = insert (save @ ''/losses.hdf5'') (files w)"
  by (simp add: zf_retrain_def retrain_body_files)

lemma zf_retrain_snd:
  "snd (zf_retrain re td1 td2 save d w) =
     (if save @ ''/losses.hdf5'' \<in> files w then Some FileExistsError else None)"
  by (simp add: zf_retrain_def retrain_body_result)

lemma ce_retrain_files: "files w \<subseteq> files (fst (ce_retrain re tls save d ix ff w))"
  by (auto simp: ce_retrain_def Let_def retrain_body_files)

lemma zf_retrain_mono: "files w \<subseteq> files (fst (zf_retrain re td1 td2 save d w))"
  by (auto simp: zf_retrain_files)

lemma zf_iteration_skip:
  assumes "mpath bp p @ ''/fl_retrain'' \<in> files w"
  shows "zf_iteration re bp td1 td2 i p w =
    (w\<lparr>calls := calls w @ [Model_data (mpath bp p), Path_exists (mpath bp p @ ''/fl_retrain''),
                             Print_skipping (mpath bp p @ ''/fl_retrain'')]\<rparr>, None)"
  using assms by (simp add: zf_iteration_def Let_def call_def)

lemma os_mkdir_D:
  "os_mkdir path w = (w', e) \<Longrightarrow> files w \<subseteq> files w' \<and> (e = None \<longrightarrow> path \<in> files w')"
  by (auto simp: os_mkdir_def split: if_splits)

lemma zf_retrain_D:
  "zf_retrain re td1 td2 save d w = (w', e) \<Longrightarrow> files w \<subseteq> files w'"
  using zf_retrain_mono [of w re td1 td2 save d] by auto

lemma ce_retrain_D:
  "ce_retrain re tls save d ix ff w = (w', e) \<Longrightarrow> files w \<subseteq> files w'"
  using ce_retrain_files [of w re tls save d ix ff] by auto

lemma zf_iteration_memD:
  "zf_iteration re bp td1 td2 i p w = (w', e) \<Longrightarrow> x \<in> files w \<Longrightarrow> x \<in> files w'"
  by (auto simp: zf_iteration_def zf_fish_unlike_def Let_def then_do_def
      split: prod.splits option.splits if_splits
      dest!: os_mkdir_D zf_retrain_D) blast+

lemma zf_iteration_NoneD:
  "zf_iteration re bp td1 td2 i p w = (w', None) \<Longrightarrow> mpath bp p @ ''/fl_retrain'' \<in> files w'"
  by (auto simp: zf_iteration_def zf_fish_unlike_def Let_def then_do_def
      split: prod.splits option.splits if_splits
      dest!: os_mkdir_D zf_retrain_D) blast+

lemma zf_loop_memD:
  "zf_loop re bp td1 td2 i ps w = (w', e) \<Longrightarrow> x \<in> files w \<Longrightarrow> x \<in> files w'"
proof (induction ps arbitrary: i w)
  case Nil
  then show ?case by simp
next
  case (Cons p ps)
  obtain w1 e1 where it: "zf_iteration re bp td1 td2 i p w = (w1, e1)"
    by (cases "zf_iteration re bp td1 td2 i p w")
  have x1: "x \<in> files w1" using zf_iteration_memD [OF it] Cons.prems(2) .
  show ?case
  proof (cases e1)
    case None
    then show ?thesis using Cons.prems(1) it Cons.IH [of "Suc i" w1] x1 by simp
  next
    case (Some a)
    then show ?thesis using Cons.prems(1) it x1 by simp
  qed
qed

lemma zf_loop_NoneD:
  "zf_loop re bp td1 td2 i ps w = (w', None) \<Longrightarrow>
   \<forall>p\<in>set ps. mpath bp p @ ''/fl_retrain'' \<in> files w'"
proof (induction ps arbitrary: i w)
  case Nil
  then show ?case by simp
next
  case (Cons p ps)
  obtain w1 e1 where it: "zf_iteration re bp td1 td2 i p w = (w1, e1)"
    by (cases "zf_iteration re bp td1 td2 i p w")
  have e1: "e1 = None" using Cons.prems it by (cases e1) simp_all
  have rest: "zf_loop re bp td1 td2 (Suc i) ps w1 = (w', None)"
    using Cons.prems it e1 by simp
  have "mpath bp p @ ''/fl_retrain'' \<in> files w1"
    using zf_iteration_NoneD it e1 by blast
  then have "mpath bp p @ ''/fl_retrain'' \<in> files w'"
    using zf_loop_memD [OF rest] by blast
  then show ?case using Cons.IH [OF rest] by simp
qed

lemma zf_loop_skip_all:
  "\<forall>p\<in>set ps. mpath bp p @ ''/fl_retrain'' \<in> files w \<Longrightarrow>
   zf_loop re bp td1 td2 i ps w =
     (w\<lparr>calls := calls w @ concat (map (\<lambda>p. [Model_data (mpath bp p),
                                 Path_exists (mpath bp p @ ''/fl_retrain''),
                                 Print_skipping (mpath bp p @ ''/fl_retrain'')]) ps)\<rparr>, None)"
proof (induction ps arbitrary: i w)
  case Nil
  then show ?case by simp
next
  case (Cons p ps)
  let ?w1 = "w\<lparr>calls := calls w @ [Model_data (mpath bp p),
                 Path_exists (mpath bp p @ ''/fl_retrain''),
                 Print_skipping (mpath bp p @ ''/fl_retrain'')]\<rparr>"
  have it: "zf_iteration re bp td1 td2 i p w = (?w1, None)"
    using Cons.prems by (simp add: zf_iteration_skip)
  have "\<forall>q\<in>set ps. mpath bp q @ ''/fl_retrain'' \<in> files ?w1"
    using Cons.prems by simp
  from Cons.IH [OF this, of "Suc i"] show ?case
    by (simp add: it)
qed

lemma ce_iteration_skip_both:
  assumes "mpath bp p @ ''/cel_tbranch_retrain'' \<in> files w"
    and "mpath bp p @ ''/cel_nontbranch_retrain'' \<in> files w"
  shows "ce_iteration re bp tls ix i p w =
    (w\<lparr>calls := calls w @ [Model_data (mpath bp p),
         Path_exists (mpath bp p @ ''/cel_tbranch_retrain''),
         Print_skipping (mpath bp p @ ''/cel_tbranch_retrain''),
         Path_exists (mpath bp p @ ''/cel_nontbranch_retrain''),
         Print_skipping (mpath bp p @ ''/cel_nontbranch_retrain'')]\<rparr>, None)"
  using assms by (simp add: ce_iteration_def ce_t_branch_def ce_m_branch_def Let_def call_def)

lemma ce_iteration_D:
  "ce_iteration re bp tls ix i p w = (w', e) \<Longrightarrow>
   files w \<subseteq> files w'
   \<and> (e = None \<longrightarrow> mpath bp p @ ''/cel_tbranch_retrain'' \<in> files w'
                  \<and> mpath bp p @ ''/cel_nontbranch_retrain'' \<in> files w')"
  by (auto simp: ce_iteration_def ce_t_branch_def ce_m_branch_def Let_def then_do_def
      split: prod.splits option.splits if_splits
      dest!: os_mkdir_D ce_retrain_D) blast+

lemma ce_loop_memD:
  "ce_loop re bp tls sw ix i ps w = (w', e) \<Longrightarrow> x \<in> files w \<Longrightarrow> x \<in> files w'"
proof (induction ps arbitrary: ix i w)
  case Nil
  then show ?case by simp
next
  case (Cons p ps)
  let ?ix = "if sw i then rev ix else ix"
  obtain w1 e1 where it: "ce_iteration re bp tls ?ix i p w = (w1, e1)"
    by (cases "ce_iteration re bp tls ?ix i p w")
  have x1: "x \<in> files w1" using ce_iteration_D [OF it] Cons.prems(2) by blast
  show ?case
  proof (cases e1)
    case None
    then show ?thesis
      using Cons.prems(1) it Cons.IH [of ?ix "Suc i" w1] x1 by (simp add: Let_def)
  next
    case (Some a)
    then show ?thesis using Cons.prems(1) it x1 by (simp add: Let_def)
  qed
qed

lemma ce_loop_NoneD:
  "ce_loop re bp tls sw ix i ps w = (w', None) \<Longrightarrow>
   \<forall>p\<in>set ps. mpath bp p @ ''/cel_tbranch_retrain'' \<in> files w'
             \<and> mpath bp p @ ''/cel_nontbranch_retrain'' \<in> files w'"
proof (induction ps arbitrary: ix i w)
  case Nil
  then show ?case by simp
next
  case (Cons p ps)
  let ?ix = "if sw i then rev ix else ix"
  obtain w1 e1 where it: "ce_iteration re bp tls ?ix i p w = (w1, e1)"
    by (cases "ce_iteration re bp tls ?ix i p w")
  have e1: "e1 = None" using Cons.prems it by (cases e1) (simp_all add: Let_def)
  have rest: "ce_loop re bp tls sw ?ix (Suc i) ps w1 = (w', None)"
    using Cons.prems it e1 by (simp add: Let_def)
  have "mpath bp p @ ''/cel_tbranch_retrain'' \<in> files w1
        \<and> mpath bp p @ ''/cel_nontbranch_retrain'' \<in> files w1"
    using ce_iteration_D [OF it] e1 by blast
  then have "mpath bp p @ ''/cel_tbranch_retrain'' \<in> files w'
        \<and> mpath bp p @ ''/cel_nontbranch_retrain'' \<in> files w'"
    using ce_loop_memD [OF rest] by blast
  then show ?case using Cons.IH [OF rest] by simp
qed

lemma ce_loop_skip_all:
  "\<forall>p\<in>set ps. mpath bp p @ ''/cel_tbranch_retrain'' \<in> files w
             \<and> mpath bp p @ ''/cel_nontbranch_retrain'' \<in> files w \<Longrightarrow>
   ce_loop re bp tls sw ix i ps w =
     (w\<lparr>calls := calls w @ concat (map (\<lambda>p. [Model_data (mpath bp p),
         Path_exists (mpath bp p @ ''/cel_tbranch_retrain''),
         Print_skipping (mpath bp p @ ''/cel_tbranch_retrain''),
         Path_exists (mpath bp p @ ''/cel_nontbranch_retrain''),
         Print_skipping (mpath bp p @ ''/cel_nontbranch_retrain'')]) ps)\<rparr>, None)"
proof (induction ps arbitrary: ix i w)
  case Nil
  then show ?case by simp
next
  case (Cons p ps)
  let ?ix = "if sw i then rev ix else ix"
  let ?w1 = "w\<lparr>calls := calls w @ [Model_data (mpath bp p),
         Path_exists (mpath bp p @ ''/cel_tbranch_retrain''),
         Print_skipping (mpath bp p @ ''/cel_tbranch_retrain''),
         Path_exists (mpath bp p @ ''/cel_nontbranch_retrain''),
         Print_skipping (mpath bp p @ ''/cel_nontbranch_retrain'')]\<rparr>"
  have it: "ce_iteration re bp tls ?ix i p w = (?w1, None)"
    using Cons.prems by (simp add: ce_iteration_skip_both)
  have "\<forall>q\<in>set ps. mpath bp q @ ''/cel_tbranch_retrain'' \<in> files ?w1
             \<and> mpath bp q @ ''/cel_nontbranch_retrain'' \<in> files ?w1"
    using Cons.prems by simp
  from Cons.IH [OF this, of ?ix "Suc i"] show ?case
    by (simp add: it Let_def)
qed

lemma training_steps_skips_zf:
  "training_steps (concat (map (\<lambda>p. [Model_data (f p), Path_exists (g p), Print_skipping (h p)]) ps)) = 0"
  by (induction ps) (simp_all add: training_steps_def)

lemma training_steps_skips_ce:
  "training_steps (concat (map (\<lambda>p. [Model_data (f p), Path_exists (g p), Print_skipping (h p),
      Path_exists (g2 p), Print_skipping (h2 p)]) ps)) = 0"
  by (induction ps) (simp_all add: training_steps_def)

lemma zf_main_second_run:
  assumes "zf_main re bp td1 td2 paths w = (w1, None)"
  shows "snd (zf_main re' bp td1' td2' paths w1) = None
     \<and> training_steps (calls (fst (zf_main re' bp td1' td2' paths w1))) = training_steps (calls w1)
     \<and> files (fst (zf_main re' bp td1' td2' paths w1)) = files w1"
proof -
  have "\<forall>p\<in>set paths. mpath bp p @ ''/fl_retrain'' \<in> files w1"
    using assms zf_loop_NoneD unfolding zf_main_def by blast
  then show ?thesis
    by (simp add: zf_main_def zf_loop_skip_all training_steps_skips_zf)
qed

lemma ce_main_second_run:
  assumes "ce_main re tD_1 tD_2 bp sw paths w = (w1, None)"
  shows "snd (ce_main re' tD_1' tD_2' bp sw' paths w1) = None
     \<and> training_steps (calls (fst (ce_main re' tD_1' tD_2' bp sw' paths w1))) = training_steps (calls w1)
     \<and> files (fst (ce_main re' tD_1' tD_2' bp sw' paths w1)) = files w1"
proof -
  have "\<forall>p\<in>set paths. mpath bp p @ ''/cel_tbranch_retrain'' \<in> files w1
             \<and> mpath bp p @ ''/cel_nontbranch_retrain'' \<in> files w1"
    using assms ce_loop_NoneD unfolding ce_main_def by blast
  then show ?thesis
    by (simp add: ce_main_def ce_loop_skip_all training_steps_skips_ce)
qed

lemma zf_fish_unlike_skip:
  assumes "mpath bp p @ ''/nfl_retrain'' \<in> files w"
  shows "zf_fish_unlike re bp td1 td2 i p w =
    (w\<lparr>calls := calls w @ [Path_exists (mpath bp p @ ''/nfl_retrain''),
                             Print_skipping (mpath bp p @ ''/nfl_retrain'')]\<rparr>, None)"
  using assms by (simp add: zf_fish_unlike_def Let_def call_def)

lemma ce_t_branch_skip:
  assumes "mpath bp p @ ''/cel_tbranch_retrain'' \<in> files w"
  shows "ce_t_branch re bp tls ix i p w =
    (w\<lparr>calls := calls w @ [Path_exists (mpath bp p @ ''/cel_tbranch_retrain''),
                             Print_skipping (mpath bp p @ ''/cel_tbranch_retrain'')]\<rparr>, None)"
  using assms by (simp add: ce_t_branch_def Let_def call_def)

lemma ce_m_branch_skip:
  assumes "mpath bp p @ ''/cel_nontbranch_retrain'' \<in> files w"
  shows "ce_m_branch re bp tls ix i p b w =
    (w\<lparr>calls := calls w @ [Path_exists (mpath bp p @ ''/cel_nontbranch_retrain''),
                             Print_skipping (mpath bp p @ ''/cel_nontbranch_retrain'')]\<rparr>, None)"
  using assms by (simp add: ce_m_branch_def Let_def call_def)

lemma ce_iteration_tbranch_exists:
  assumes "mpath bp p @ ''/cel_tbranch_retrain'' \<in> files w"
  shows "ce_iteration re bp tls ix i p w =
    ce_m_branch re bp tls ix i p True
      (w\<lparr>calls := calls w @ [Model_data (mpath bp p),
                               Path_exists (mpath bp p @ ''/cel_tbranch_retrain''),
                               Print_skipping (mpath bp p @ ''/cel_tbranch_retrain'')]\<rparr>)"
  using assms by (simp add: ce_iteration_def Let_def ce_t_branch_skip) (simp add: call_def)

lemma ce_retrain_calls_prefix:
  "\<exists>rest. calls (fst (ce_retrain re tls save d ix ff w)) = calls w @ rest"
  by (simp add: ce_retrain_def Let_def retrain_body_calls)

lemma ce_m_branch_checks:
  "\<exists>rest. calls (fst (ce_m_branch re bp tls ix i p b w)) =
          calls w @ Path_exists (mpath bp p @ ''/cel_nontbranch_retrain'') # rest"
proof (cases "mpath bp p @ ''/cel_nontbranch_retrain'' \<in> files w")
  case True
  then show ?thesis by (simp add: ce_m_branch_skip)
next
  case False
  let ?c = "mpath bp p @ ''/cel_nontbranch_retrain''"
  let ?W = "call (Model_load (mpath bp p))
              (if b then call (Mkdir ?c) ((call (Path_exists ?c) w)\<lparr>files := insert ?c (files w)\<rparr>)
               else call Model_clear
                      (call (Mkdir ?c) ((call (Path_exists ?c) w)\<lparr>files := insert ?c (files w)\<rparr>)))"
  let ?r = "ce_retrain (re ?c) tls ?c (Det_drop_list i ce_like) ix ''_m_'' ?W"
  have eq: "ce_m_branch re bp tls ix i p b w = then_do ?r (\<lambda>w3. (call Model_clear w3, None))"
    using False by (simp add: ce_m_branch_def Let_def os_mkdir_ok)
  obtain rest where rest: "calls (fst ?r) = calls ?W @ rest"
    using ce_retrain_calls_prefix by blast
  have W: "\<exists>xs. calls ?W = calls w @ Path_exists ?c # xs"
    by simp
  then obtain xs where xs: "calls ?W = calls w @ Path_exists ?c # xs" by blast
  show ?thesis
  proof (cases ?r)
    case (Pair w3 e)
    then have c3: "calls w3 = calls w @ Path_exists ?c # (xs @ rest)"
      using rest xs by simp
    show ?thesis
    proof (cases e)
      case None
      then show ?thesis using eq Pair c3 by simp
    next
      case (Some a)
      then show ?thesis using eq Pair c3 by simp
    qed
  qed
qed

lemma zf_iteration_first_done:
  assumes "mpath bp p @ ''/fl_retrain'' \<notin> files w"
    and "mpath bp p @ ''/fl_retrain'' @ ''/losses.hdf5'' \<notin> files w"
  shows "zf_iteration re bp td1 td2 i p w =
    zf_fish_unlike re bp td1 td2 i p
      (fst (zf_retrain (re (mpath bp p @ ''/fl_retrain'')) td1 td2 (mpath bp p @ ''/fl_retrain'')
              (Det_drop_list i fish_like)
              (w\<lparr>files := insert (mpath bp p @ ''/fl_retrain'') (files w),
                 calls := calls w @ [Model_data (mpath bp p),
                            Path_exists (mpath bp p @ ''/fl_retrain''),
                            Mkdir (mpath bp p @ ''/fl_retrain''), Model_load (mpath bp p)]\<rparr>)))"
proof -
  let ?fl = "mpath bp p @ ''/fl_retrain''"
  let ?W = "w\<lparr>files := insert ?fl (files w),
                calls := calls w @ [Model_data (mpath bp p), Path_exists ?fl, Mkdir ?fl,
                           Model_load (mpath bp p)]\<rparr>"
  let ?r = "zf_retrain (re ?fl) td1 td2 ?fl (Det_drop_list i fish_like) ?W"
  have W: "call (Model_load (mpath bp p))
             (call (Mkdir ?fl)
                ((call (Path_exists ?fl) (call (Model_data (mpath bp p)) w))
                   \<lparr>files := insert ?fl (files w)\<rparr>)) = ?W"
    by (simp add: call_def)
  have eq: "zf_iteration re bp td1 td2 i p w = then_do ?r (zf_fish_unlike re bp td1 td2 i p)"
    using assms(1) by (simp add: zf_iteration_def Let_def os_mkdir_ok W)
  have "snd ?r = None"
    using assms(2) by (simp add: zf_retrain_snd)
  then have "?r = (fst ?r, None)"
    by (metis prod.collapse)
  then show ?thesis using eq by (metis then_do_None)
qed

lemma training_steps_Cons_other [simp]:
  "training_steps (Model_data a # cs) = training_steps cs"
  "training_steps (Path_exists a # cs) = training_steps cs"
  "training_steps (Print_skipping a # cs) = training_steps cs"
  "training_steps (Mkdir a # cs) = training_steps cs"
  "training_steps (Model_load a # cs) = training_steps cs"
  "training_steps (Model_clear # cs) = training_steps cs"
  by (simp_all add: training_steps_def)

lemma then_do_ok: "snd r = None \<Longrightarrow> then_do r f = f (fst r)"
  by (cases r) simp

lemma zf_first_run:
  "snd (zf_main (\<lambda>f k. 0) ''b/'' \<lparr>source_file = ''a'', data_size = 64\<rparr>
          \<lparr>source_file = ''b'', data_size = 32\<rparr> [''m/''] \<lparr>files = {}, calls = []\<rparr>) = None
   \<and> training_steps (calls (fst (zf_main (\<lambda>f k. 0) ''b/'' \<lparr>source_file = ''a'', data_size = 64\<rparr>
          \<lparr>source_file = ''b'', data_size = 32\<rparr> [''m/''] \<lparr>files = {}, calls = []\<rparr>))) = 6"
  by (simp add: zf_main_def zf_iteration_first_done zf_fish_unlike_def Let_def os_mkdir_def
      zf_retrain_def then_do_ok retrain_body_result retrain_body_files mpath_def
      training_steps_retrain_body)

lemma ce_first_run:
  "snd (ce_main (\<lambda>f k. 0) \<lparr>source_file = ''a'', data_size = 64\<rparr>
          \<lparr>source_file = ''b'', data_size = 32\<rparr> ''b/'' (\<lambda>i. True) [''m/'']
          \<lparr>files = {}, calls = []\<rparr>) = None
   \<and> training_steps (calls (fst (ce_main (\<lambda>f k. 0) \<lparr>source_file = ''a'', data_size = 64\<rparr>
          \<lparr>source_file = ''b'', data_size = 32\<rparr> ''b/'' (\<lambda>i. True) [''m/'']
          \<lparr>files = {}, calls = []\<rparr>))) = 6"
proof -
  have ok: "ce_retrain re [\<lparr>source_file = ''a'', data_size = 64\<rparr>, \<lparr>source_file = ''b'', data_size = 32\<rparr>]
              save d [Suc 0, 0] ff w =
            retrain_body re (Filtered_train ff) save d \<lparr>source_file = ''b'', data_size = 32\<rparr>
              \<lparr>source_file = ''a'', data_size = 64\<rparr> (call (Get_filtered_train ff) w)"
    for re save d ff w
    by (simp add: ce_retrain_def Let_def)
  show ?thesis
    by (simp add: ce_main_def ce_iteration_def ce_t_branch_def ce_m_branch_def Let_def
        os_mkdir_def ok then_do_ok retrain_body_result retrain_body_files mpath_def
        training_steps_retrain_body)
qed

text \<open>
  Claim C7. When the output folder of an ablation condition exists, the driver makes
  no training step for it and raises nothing: an existing \<open>fl_retrain\<close> folder ends
  the zebrafish iteration and the loop goes on with the next model; an existing
  \<open>nfl_retrain\<close>, \<open>cel_tbranch_retrain\<close> or \<open>cel_nontbranch_retrain\<close> folder makes
  its block end normally without a training step; with both C. elegans folders present
  the iteration ends normally and the loop goes on. After a first run of either driver
  that ended without an exception, a second run over the same paths ends without an
  exception and makes no training step.
\<close>

theorem existing_folder_is_skipped:
  "(mpath bp p @ ''/fl_retrain'' \<in> files w \<longrightarrow>
      snd (zf_iteration re bp tda tdb i p w) = None
      \<and> training_steps (calls (fst (zf_iteration re bp tda tdb i p w))) = training_steps (calls w)
      \<and> zf_loop re bp tda tdb i (p # ps) w =
          zf_loop re bp tda tdb (Suc i) ps (fst (zf_iteration re bp tda tdb i p w)))
   \<and> (mpath bp p @ ''/nfl_retrain'' \<in> files w \<longrightarrow>
      snd (zf_fish_unlike re bp tda tdb i p w) = None
      \<and> training_steps (calls (fst (zf_fish_unlike re bp tda tdb i p w))) = training_steps (calls w))
   \<and> (mpath bp p @ ''/cel_tbranch_retrain'' \<in> files w \<longrightarrow>
      snd (ce_t_branch re bp tls ix i p w) = None
      \<and> training_steps (calls (fst (ce_t_branch re bp tls ix i p w))) = training_steps (calls w))
   \<and> (mpath bp p @ ''/cel_nontbranch_retrain'' \<in> files w \<longrightarrow>
      snd (ce_m_branch re bp tls ix i p b w) = None
      \<and> training_steps (calls (fst (ce_m_branch re bp tls ix i p b w))) = training_steps (calls w))
   \<and> (mpath bp p @ ''/cel_tbranch_retrain'' \<in> files w
      \<and> mpath bp p @ ''/cel_nontbranch_retrain'' \<in> files w \<longrightarrow>
      snd (ce_iteration re bp tls ix i p w) = None
      \<and> training_steps (calls (fst (ce_iteration re bp tls ix i p w))) = training_steps (calls w)
      \<and> ce_loop re bp tls sw ix i (p # ps) w =
          ce_loop re bp tls sw (if sw i then rev ix else ix) (Suc i) ps
            (fst (ce_iteration re bp tls ix i p w)))
   \<and> (zf_main re bp tda tdb paths w = (v, None) \<longrightarrow>
      snd (zf_main re' bp tda' tdb' paths v) = None
      \<and> training_steps (calls (fst (zf_main re' bp tda' tdb' paths v))) = training_steps (calls v))
   \<and> (ce_main re tDa tDb bp sw paths w = (v, None) \<longrightarrow>
      snd (ce_main re' tDa' tDb' bp sw' paths v) = None
      \<and> training_steps (calls (fst (ce_main re' tDa' tDb' bp sw' paths v)))
          = training_steps (calls v))"
proof (intro conjI impI)
  assume fl: "mpath bp p @ ''/fl_retrain'' \<in> files w"
  show "snd (zf_iteration re bp tda tdb i p w) = None"
    and "training_steps (calls (fst (zf_iteration re bp tda tdb i p w))) = training_steps (calls w)"
    and "zf_loop re bp tda tdb i (p # ps) w =
          zf_loop re bp tda tdb (Suc i) ps (fst (zf_iteration re bp tda tdb i p w))"
    by (simp_all add: zf_iteration_skip [OF fl])
next
  assume nfl: "mpath bp p @ ''/nfl_retrain'' \<in> files w"
  show "snd (zf_fish_unlike re bp tda tdb i p w) = None"
    and "training_steps (calls (fst (zf_fish_unlike re bp tda tdb i p w))) = training_steps (calls w)"
    by (simp_all add: zf_fish_unlike_skip [OF nfl])
next
  assume cel: "mpath bp p @ ''/cel_tbranch_retrain'' \<in> files w"
  show "snd (ce_t_branch re bp tls ix i p w) = None"
    and "training_steps (calls (fst (ce_t_branch re bp tls ix i p w))) = training_steps (calls w)"
    by (simp_all add: ce_t_branch_skip [OF cel])
next
  assume cel2: "mpath bp p @ ''/cel_nontbranch_retrain'' \<in> files w"
  show "snd (ce_m_branch re bp tls ix i p b w) = None"
    and "training_steps (calls (fst (ce_m_branch re bp tls ix i p b w))) = training_steps (calls w)"
    by (simp_all add: ce_m_branch_skip [OF cel2])
next
  assume both: "mpath bp p @ ''/cel_tbranch_retrain'' \<in> files w
      \<and> mpath bp p @ ''/cel_nontbranch_retrain'' \<in> files w"
  then have sk: "\<And>ix. ce_iteration re bp tls ix i p w =
    (w\<lparr>calls := calls w @ [Model_data (mpath bp p),
         Path_exists (mpath bp p @ ''/cel_tbranch_retrain''),
         Print_skipping (mpath bp p @ ''/cel_tbranch_retrain''),
         Path_exists (mpath bp p @ ''/cel_nontbranch_retrain''),
         Print_skipping (mpath bp p @ ''/cel_nontbranch_retrain'')]\<rparr>, None)"
    by (simp add: ce_iteration_skip_both)
  show "snd (ce_iteration re bp tls ix i p w) = None"
    and "training_steps (calls (fst (ce_iteration re bp tls ix i p w))) = training_steps (calls w)"
    and "ce_loop re bp tls sw ix i (p # ps) w =
          ce_loop re bp tls sw (if sw i then rev ix else ix) (Suc i) ps
            (fst (ce_iteration re bp tls ix i p w))"
    by (simp_all add: sk Let_def)
next
  assume r: "zf_main re bp tda tdb paths w = (v, None)"
  show "snd (zf_main re' bp tda' tdb' paths v) = None"
    and "training_steps (calls (fst (zf_main re' bp tda' tdb' paths v))) = training_steps (calls v)"
    using zf_main_second_run [OF r] by simp_all
next
  assume r: "ce_main re tDa tDb bp sw paths w = (v, None)"
  show "snd (ce_main re' tDa' tDb' bp sw' paths v) = None"
    and "training_steps (calls (fst (ce_main re' tDa' tDb' bp sw' paths v)))
          = training_steps (calls v)"
    using ce_main_second_run [OF r] by simp_all
qed

theorem existing_folder_is_skipped_witness:
  "zf_main (\<lambda>f k. 0) ''b/'' \<lparr>source_file = ''a'', data_size = 64\<rparr>
      \<lparr>source_file = ''b'', data_size = 32\<rparr> [''m/''] \<lparr>files = {}, calls = []\<rparr>
     = (fst (zf_main (\<lambda>f k. 0) ''b/'' \<lparr>source_file = ''a'', data_size = 64\<rparr>
          \<lparr>source_file = ''b'', data_size = 32\<rparr> [''m/''] \<lparr>files = {}, calls = []\<rparr>), None)
   \<and> snd (zf_main (\<lambda>f k. 1) ''b/'' \<lparr>source_file = ''a'', data_size = 64\<rparr>
          \<lparr>source_file = ''b'', data_size = 32\<rparr> [''m/'']
          (fst (zf_main (\<lambda>f k. 0) ''b/'' \<lparr>source_file = ''a'', data_size = 64\<rparr>
             \<lparr>source_file = ''b'', data_size = 32\<rparr> [''m/''] \<lparr>files = {}, calls = []\<rparr>))) = None
   \<and> training_steps (calls (fst (zf_main (\<lambda>f k. 1) ''b/'' \<lparr>source_file = ''a'', data_size = 64\<rparr>
          \<lparr>source_file = ''b'', data_size = 32\<rparr> [''m/'']
          (fst (zf_main (\<lambda>f k. 0) ''b/'' \<lparr>source_file = ''a'', data_size = 64\<rparr>
             \<lparr>source_file = ''b'', data_size = 32\<rparr> [''m/''] \<lparr>files = {}, calls = []\<rparr>))))) = 6
   \<and> ce_main (\<lambda>f k. 0) \<lparr>source_file = ''a'', data_size = 64\<rparr>
          \<lparr>source_file = ''b'', data_size = 32\<rparr> ''b/'' (\<lambda>i. True) [''m/'']
          \<lparr>files = {}, calls = []\<rparr>
     = (fst (ce_main (\<lambda>f k. 0) \<lparr>source_file = ''a'', data_size = 64\<rparr>
          \<lparr>source_file = ''b'', data_size = 32\<rparr> ''b/'' (\<lambda>i. True) [''m/'']
          \<lparr>files = {}, calls = []\<rparr>), None)
   \<and> training_steps (calls (fst (ce_main (\<lambda>f k. 1) \<lparr>source_file = ''a'', data_size = 64\<rparr>
          \<lparr>source_file = ''b'', data_size = 32\<rparr> ''b/'' (\<lambda>i. False) [''m/'']
          (fst (ce_main (\<lambda>f k. 0) \<lparr>source_file = ''a'', data_size = 64\<rparr>
             \<lparr>source_file = ''b'', data_size = 32\<rparr> ''b/'' (\<lambda>i. True) [''m/'']
             \<lparr>files = {}, calls = []\<rparr>))))) = 6
   \<and> ''b/m/fl_retrain'' \<in> files \<lparr>files = {''b/m/fl_retrain''}, calls = []\<rparr>
   \<and> zf_iteration (\<lambda>f k. 0) ''b/'' \<lparr>source_file = ''a'', data_size = 64\<rparr>
        \<lparr>source_file = ''b'', data_size = 32\<rparr> 0 ''m/'' \<lparr>files = {''b/m/fl_retrain''}, calls = []\<rparr>
     = (fst (zf_iteration (\<lambda>f k. 0) ''b/'' \<lparr>source_file = ''a'', data_size = 64\<rparr>
        \<lparr>source_file = ''b'', data_size = 32\<rparr> 0 ''m/'' \<lparr>files = {''b/m/fl_retrain''}, calls = []\<rparr>),
        None)
   \<and> training_steps (calls (fst (zf_iteration (\<lambda>f k. 0) ''b/'' \<lparr>source_file = ''a'', data_size = 64\<rparr>
        \<lparr>source_file = ''b'', data_size = 32\<rparr> 0 ''m/''
        \<lparr>files = {''b/m/fl_retrain''}, calls = []\<rparr>))) = 0"
proof -
  let ?A = "\<lparr>source_file = ''a'', data_size = 64\<rparr>" and ?B = "\<lparr>source_file = ''b'', data_size = 32\<rparr>"
  let ?w0 = "\<lparr>files = {}, calls = []\<rparr>"
  let ?z1 = "zf_main (\<lambda>f k. 0) ''b/'' ?A ?B [''m/''] ?w0"
  let ?c1 = "ce_main (\<lambda>f k. 0) ?A ?B ''b/'' (\<lambda>i. True) [''m/''] ?w0"
  let ?wf = "\<lparr>files = {''b/m/fl_retrain''}, calls = []\<rparr>"
  have z: "?z1 = (fst ?z1, None)"
    using zf_first_run by (metis prod.collapse)
  have c: "?c1 = (fst ?c1, None)"
    using ce_first_run by (metis prod.collapse)
  have m: "mpath ''b/'' ''m/'' @ ''/fl_retrain'' \<in> files ?wf"
    by (simp add: mpath_def)
  note zi = existing_folder_is_skipped
      [where bp = "''b/''" and p = "''m/''" and w = ?wf and re = "\<lambda>f k. 0" and tda = ?A
         and tdb = ?B and i = 0]
  note zt = existing_folder_is_skipped
      [where bp = "''b/''" and w = ?w0 and re = "\<lambda>f k. 0" and tda = ?A
         and tdb = ?B and paths = "[''m/'']" and v = "fst ?z1"
         and re' = "\<lambda>f k. 1" and tda' = ?A and tdb' = ?B]
  note ct = existing_folder_is_skipped
      [where bp = "''b/''" and w = ?w0 and re = "\<lambda>f k. 0" and tDa = ?A and tDb = ?B
         and sw = "\<lambda>i. True" and paths = "[''m/'']" and v = "fst ?c1"
         and re' = "\<lambda>f k. 1" and tDa' = ?A and tDb' = ?B and sw' = "\<lambda>i. False"]
  note z2 = zt [THEN conjunct2, THEN conjunct2, THEN conjunct2, THEN conjunct2, THEN conjunct2,
                THEN conjunct1, THEN mp, OF z]
  note c3 = ct [THEN conjunct2, THEN conjunct2, THEN conjunct2, THEN conjunct2, THEN conjunct2,
                THEN conjunct2, THEN mp, OF c]
  note i2 = zi [THEN conjunct1, THEN mp, OF m]
  have i1: "snd (zf_iteration (\<lambda>f k. 0) ''b/'' ?A ?B 0 ''m/'' ?wf) = None"
    using i2 by (rule conjunct1)
  have i3: "zf_iteration (\<lambda>f k. 0) ''b/'' ?A ?B 0 ''m/'' ?wf
            = (fst (zf_iteration (\<lambda>f k. 0) ''b/'' ?A ?B 0 ''m/'' ?wf), None)"
    using i1 by (metis prod.collapse)
  show ?thesis
    using z z2 c c3 i2 i3 zf_first_run ce_first_run
    by (simp add: training_steps_def)
qed

lemma ce_retrain_calls_start:
  "\<exists>rest. calls (fst (ce_retrain re tls save d ix ff w)) = calls w @ Get_filtered_train ff # rest"
  by (simp add: ce_retrain_def Let_def retrain_body_calls)

lemma ce_m_branch_runs:
  assumes "mpath bp p @ ''/cel_nontbranch_retrain'' \<notin> files w"
  shows "\<exists>rest. calls (fst (ce_m_branch re bp tls ix i p True w)) =
      calls w @ [Path_exists (mpath bp p @ ''/cel_nontbranch_retrain''),
                 Mkdir (mpath bp p @ ''/cel_nontbranch_retrain''),
                 Model_load (mpath bp p), Get_filtered_train ''_m_''] @ rest"
proof -
  let ?c = "mpath bp p @ ''/cel_nontbranch_retrain''"
  let ?W = "call (Model_load (mpath bp p))
              (call (Mkdir ?c) ((call (Path_exists ?c) w)\<lparr>files := insert ?c (files w)\<rparr>))"
  let ?r = "ce_retrain (re ?c) tls ?c (Det_drop_list i ce_like) ix ''_m_'' ?W"
  have eq: "ce_m_branch re bp tls ix i p True w = then_do ?r (\<lambda>w3. (call Model_clear w3, None))"
    using assms by (simp add: ce_m_branch_def Let_def os_mkdir_ok)
  obtain rest where rest: "calls (fst ?r) = calls ?W @ Get_filtered_train ''_m_'' # rest"
    using ce_retrain_calls_start by blast
  show ?thesis
  proof (cases ?r)
    case (Pair w3 e)
    then have c3: "calls w3 = calls w @ [Path_exists ?c, Mkdir ?c, Model_load (mpath bp p),
                                        Get_filtered_train ''_m_''] @ rest"
      using rest by simp
    show ?thesis
    proof (cases e)
      case None
      then show ?thesis using eq Pair c3 by simp
    next
      case (Some a)
      then show ?thesis using eq Pair c3 by simp
    qed
  qed
qed

text \<open>
  Claim C8. In the zebrafish driver an existing \<open>fl_retrain\<close> folder ends the
  iteration after the check of that folder alone: the \<open>nfl_retrain\<close> folder is not
  tested and nothing is created or trained, whether or not it exists. In the
  C. elegans driver an existing \<open>cel_tbranch_retrain\<close> folder skips the first block
  only: the iteration goes on with the second block, which tests
  \<open>cel_nontbranch_retrain\<close> and, when that folder is absent, creates it, loads the
  model and enters the retrain.
\<close>

theorem sub_phase_folder_checks:
  "(mpath bp p @ ''/fl_retrain'' \<in> files w \<longrightarrow>
      zf_iteration re bp tda tdb i p w =
        (w\<lparr>calls := calls w @ [Model_data (mpath bp p),
                                 Path_exists (mpath bp p @ ''/fl_retrain''),
                                 Print_skipping (mpath bp p @ ''/fl_retrain'')]\<rparr>, None))
   \<and> (mpath bp p @ ''/cel_tbranch_retrain'' \<in> files w \<longrightarrow>
      ce_iteration re bp tls ix i p w =
        ce_m_branch re bp tls ix i p True
          (w\<lparr>calls := calls w @ [Model_data (mpath bp p),
                                   Path_exists (mpath bp p @ ''/cel_tbranch_retrain''),
                                   Print_skipping (mpath bp p @ ''/cel_tbranch_retrain'')]\<rparr>)
      \<and> (\<exists>rest. calls (fst (ce_iteration re bp tls ix i p w)) =
            calls w @ [Model_data (mpath bp p),
                       Path_exists (mpath bp p @ ''/cel_tbranch_retrain''),
                       Print_skipping (mpath bp p @ ''/cel_tbranch_retrain''),
                       Path_exists (mpath bp p @ ''/cel_nontbranch_retrain'')] @ rest))
   \<and> (mpath bp p @ ''/cel_tbranch_retrain'' \<in> files w
      \<and> mpath bp p @ ''/cel_nontbranch_retrain'' \<notin> files w \<longrightarrow>
      (\<exists>rest. calls (fst (ce_iteration re bp tls ix i p w)) =
            calls w @ [Model_data (mpath bp p),
                       Path_exists (mpath bp p @ ''/cel_tbranch_retrain''),
                       Print_skipping (mpath bp p @ ''/cel_tbranch_retrain''),
                       Path_exists (mpath bp p @ ''/cel_nontbranch_retrain''),
                       Mkdir (mpath bp p @ ''/cel_nontbranch_retrain''),
                       Model_load (mpath bp p), Get_filtered_train ''_m_''] @ rest))"
proof (intro conjI impI)
  assume "mpath bp p @ ''/fl_retrain'' \<in> files w"
  then show "zf_iteration re bp tda tdb i p w =
        (w\<lparr>calls := calls w @ [Model_data (mpath bp p),
                                 Path_exists (mpath bp p @ ''/fl_retrain''),
                                 Print_skipping (mpath bp p @ ''/fl_retrain'')]\<rparr>, None)"
    by (rule zf_iteration_skip)
next
  assume cel: "mpath bp p @ ''/cel_tbranch_retrain'' \<in> files w"
  let ?w = "w\<lparr>calls := calls w @ [Model_data (mpath bp p),
                                   Path_exists (mpath bp p @ ''/cel_tbranch_retrain''),
                                   Print_skipping (mpath bp p @ ''/cel_tbranch_retrain'')]\<rparr>"
  show eq: "ce_iteration re bp tls ix i p w = ce_m_branch re bp tls ix i p True ?w"
    using cel by (rule ce_iteration_tbranch_exists)
  obtain rest where "calls (fst (ce_m_branch re bp tls ix i p True ?w)) =
          calls ?w @ Path_exists (mpath bp p @ ''/cel_nontbranch_retrain'') # rest"
    using ce_m_branch_checks by blast
  then show "\<exists>rest. calls (fst (ce_iteration re bp tls ix i p w)) =
            calls w @ [Model_data (mpath bp p),
                       Path_exists (mpath bp p @ ''/cel_tbranch_retrain''),
                       Print_skipping (mpath bp p @ ''/cel_tbranch_retrain''),
                       Path_exists (mpath bp p @ ''/cel_nontbranch_retrain'')] @ rest"
    by (simp add: eq)
next
  assume h: "mpath bp p @ ''/cel_tbranch_retrain'' \<in> files w
      \<and> mpath bp p @ ''/cel_nontbranch_retrain'' \<notin> files w"
  let ?w = "w\<lparr>calls := calls w @ [Model_data (mpath bp p),
                                   Path_exists (mpath bp p @ ''/cel_tbranch_retrain''),
                                   Print_skipping (mpath bp p @ ''/cel_tbranch_retrain'')]\<rparr>"
  have eq: "ce_iteration re bp tls ix i p w = ce_m_branch re bp tls ix i p True ?w"
    using h by (intro ce_iteration_tbranch_exists) simp
  have "mpath bp p @ ''/cel_nontbranch_retrain'' \<notin> files ?w"
    using h by simp
  from ce_m_branch_runs [OF this, of re tls ix i]
  show "\<exists>rest. calls (fst (ce_iteration re bp tls ix i p w)) =
            calls w @ [Model_data (mpath bp p),
                       Path_exists (mpath bp p @ ''/cel_tbranch_retrain''),
                       Print_skipping (mpath bp p @ ''/cel_tbranch_retrain''),
                       Path_exists (mpath bp p @ ''/cel_nontbranch_retrain''),
                       Mkdir (mpath bp p @ ''/cel_nontbranch_retrain''),
                       Model_load (mpath bp p), Get_filtered_train ''_m_''] @ rest"
    by (simp add: eq)
qed

theorem sub_phase_folder_checks_witness:
  "''b/m/fl_retrain'' \<in> files \<lparr>files = {''b/m/fl_retrain''}, calls = []\<rparr>
   \<and> ''b/m/nfl_retrain'' \<notin> files \<lparr>files = {''b/m/fl_retrain''}, calls = []\<rparr>
   \<and> zf_iteration (\<lambda>f k. 0) ''b/'' \<lparr>source_file = ''a'', data_size = 64\<rparr>
        \<lparr>source_file = ''b'', data_size = 32\<rparr> 0 ''m/'' \<lparr>files = {''b/m/fl_retrain''}, calls = []\<rparr>
      = (\<lparr>files = {''b/m/fl_retrain''},
          calls = [Model_data ''b/m'', Path_exists ''b/m/fl_retrain'',
                   Print_skipping ''b/m/fl_retrain'']\<rparr>, None)
   \<and> ''b/m/cel_tbranch_retrain'' \<in> files \<lparr>files = {''b/m/cel_tbranch_retrain''}, calls = []\<rparr>
   \<and> ''b/m/cel_nontbranch_retrain'' \<notin> files \<lparr>files = {''b/m/cel_tbranch_retrain''}, calls = []\<rparr>
   \<and> (\<exists>rest. calls (fst (ce_iteration (\<lambda>f k. 0) ''b/''
          [\<lparr>source_file = ''a'', data_size = 64\<rparr>, \<lparr>source_file = ''b'', data_size = 32\<rparr>]
          [1, 0] 0 ''m/'' \<lparr>files = {''b/m/cel_tbranch_retrain''}, calls = []\<rparr>)) =
        [Model_data ''b/m'', Path_exists ''b/m/cel_tbranch_retrain'',
         Print_skipping ''b/m/cel_tbranch_retrain'', Path_exists ''b/m/cel_nontbranch_retrain'',
         Mkdir ''b/m/cel_nontbranch_retrain'', Model_load ''b/m'', Get_filtered_train ''_m_'']
        @ rest)"
proof -
  let ?A = "\<lparr>source_file = ''a'', data_size = 64\<rparr>" and ?B = "\<lparr>source_file = ''b'', data_size = 32\<rparr>"
  let ?wf = "\<lparr>files = {''b/m/fl_retrain''}, calls = []\<rparr>"
  let ?wc = "\<lparr>files = {''b/m/cel_tbranch_retrain''}, calls = []\<rparr>"
  note zt = sub_phase_folder_checks
      [where bp = "''b/''" and p = "''m/''" and w = ?wf and re = "\<lambda>f k. 0" and tda = ?A
         and tdb = ?B and i = 0]
  note ct = sub_phase_folder_checks
      [where bp = "''b/''" and p = "''m/''" and w = ?wc and re = "\<lambda>f k. 0"
         and tls = "[?A, ?B]" and ix = "[1, 0]" and i = 0]
  have m: "mpath ''b/'' ''m/'' @ ''/fl_retrain'' \<in> files ?wf"
    by (simp add: mpath_def)
  have c: "mpath ''b/'' ''m/'' @ ''/cel_tbranch_retrain'' \<in> files ?wc
      \<and> mpath ''b/'' ''m/'' @ ''/cel_nontbranch_retrain'' \<notin> files ?wc"
    by (simp add: mpath_def)
  note z1 = zt [THEN conjunct1, THEN mp, OF m]
  note c1 = ct [THEN conjunct2, THEN conjunct2, THEN mp, OF c]
  show ?thesis
    using z1 c1 by (simp add: mpath_def)
qed

end
